theory Spec2Isabelle
  imports Complex_Main "HOL-Library.Word" "HOL-Library.Sublist"
begin

section \<open>JavaScript values shared by the components\<close>

text \<open>
  A JavaScript string is a sequence of UTF-16 code units. String literals of the source
  are ASCII and are written with \<open>js\<close>.
\<close>

type_synonym js_string = "16 word list"

definition js :: "string \<Rightarrow> js_string" where
  "js s = map of_char s"

text \<open>\<open>haystack.includes(needle)\<close>: the needle occurs as a contiguous run.\<close>

fun starts_with :: "'a list \<Rightarrow> 'a list \<Rightarrow> bool" where
  "starts_with xs [] = True"
| "starts_with [] (y # ys) = False"
| "starts_with (x # xs) (y # ys) = (x = y \<and> starts_with xs ys)"

fun js_includes :: "'a list \<Rightarrow> 'a list \<Rightarrow> bool" where
  "js_includes [] needle = (needle = [])"
| "js_includes (x # xs) needle = (starts_with (x # xs) needle \<or> js_includes xs needle)"

text \<open>
  A thrown value is an \<open>Error\<close> object with a name and a message; \<open>String(error)\<close>
  is \<open>Error.prototype.toString\<close>.
\<close>

datatype js_error = JsError (name: js_string) (message: js_string)

definition errorString :: "js_error \<Rightarrow> js_string" where
  "errorString e =
     (if name e = [] then message e
      else if message e = [] then name e
      else name e @ js '': '' @ message e)"

section \<open>InterviewScreen: the retry wrapper\<close>

definition MAX_RETRIES :: nat where
  "MAX_RETRIES = 3"

definition INITIAL_DELAY_MS :: nat where
  "INITIAL_DELAY_MS = 1000"

text \<open>
  \<open>ai.models.generateContent\<close> is the external service: \<open>gen request n\<close> is the outcome
  of the call that is made when \<open>n\<close> calls have been made before it, \<open>Inl\<close> the error
  it throws.
\<close>

type_synonym ('q, 'r) generateContent = "'q \<Rightarrow> nat \<Rightarrow> js_error + 'r"

text \<open>
  One run of the wrapper: what it returns or throws, the number of calls of
  \<open>generateContent\<close> made so far, and the delays slept, in order.
\<close>

record 'r retry_run =
  outcome :: "js_error + 'r"
  calls :: nat
  delays :: "nat list"

definition isRateLimit :: "js_error \<Rightarrow> bool" where
  "isRateLimit error =
     (let errorString = errorString error
      in js_includes errorString (js ''429'') \<or> js_includes errorString (js ''RESOURCE_EXHAUSTED''))"

definition unreachableError :: js_error where
  "unreachableError = JsError (js ''Error'') (js ''generateContentWithRetry failed after all attempts.'')"

function retry_loop ::
  "('q, 'r) generateContent \<Rightarrow> 'q \<Rightarrow> nat \<Rightarrow> nat \<Rightarrow> nat list \<Rightarrow> 'r retry_run" where
  "retry_loop gen request attempt n slept =
     (if attempt < MAX_RETRIES then
        (case gen request n of
           Inr response \<Rightarrow> \<lparr>outcome = Inr response, calls = Suc n, delays = slept\<rparr>
         | Inl error \<Rightarrow>
             if isRateLimit error then
               (if Suc attempt \<ge> MAX_RETRIES
                then \<lparr>outcome = Inl error, calls = Suc n, delays = slept\<rparr>
                else retry_loop gen request (Suc attempt) (Suc n)
                       (slept @ [INITIAL_DELAY_MS * 2 ^ (Suc attempt - 1)]))
             else \<lparr>outcome = Inl error, calls = Suc n, delays = slept\<rparr>)
      else \<lparr>outcome = Inl unreachableError, calls = n, delays = slept\<rparr>)"
  by pat_completeness auto
termination
  by (relation "measure (\<lambda>(gen, request, attempt, n, slept). MAX_RETRIES - attempt)") auto

declare retry_loop.simps [simp del]

definition generateContentWithRetry :: "('q, 'r) generateContent \<Rightarrow> 'q \<Rightarrow> nat \<Rightarrow> 'r retry_run" where
  "generateContentWithRetry gen request n = retry_loop gen request 0 n []"

text \<open>The call made after \<open>n\<close> earlier ones fails with a rate-limit error.\<close>

definition rateLimited :: "('q, 'r) generateContent \<Rightarrow> 'q \<Rightarrow> nat \<Rightarrow> bool" where
  "rateLimited gen request n =
     (case gen request n of Inl error \<Rightarrow> isRateLimit error | Inr response \<Rightarrow> False)"

text \<open>The delay computed when \<open>attempt\<close> has just been incremented to \<open>k\<close>.\<close>

definition backoff :: "nat \<Rightarrow> nat" where
  "backoff k = INITIAL_DELAY_MS * 2 ^ (k - 1)"

section \<open>InterviewScreen: audio decoding\<close>

text \<open>
  \<open>decode\<close>: \<open>atob\<close> is the browser's; it throws on input that is not base64. The
  loop stores the code unit of each character into a \<open>Uint8Array\<close>, which keeps its
  low eight bits.
\<close>

type_synonym atob = "js_string \<Rightarrow> js_error + js_string"

definition decode :: "atob \<Rightarrow> js_string \<Rightarrow> js_error + 8 word list" where
  "decode atob base64 =
     (case atob base64 of
        Inl error \<Rightarrow> Inl error
      | Inr binaryString \<Rightarrow>
          (let len = length binaryString
           in Inr (fold (\<lambda>i bytes. bytes[i := ucast (binaryString ! i)]) [0..<len]
                     (replicate len 0))))"

text \<open>
  A \<open>Float32Array\<close> element. The quotient of a 16-bit integer by 32768 is a float, so
  the division is exact.
\<close>

datatype float32 = Sample real | NaN

record AudioBuffer =
  buffer_sampleRate :: nat
  channels :: "float32 list list"

text \<open>
  \<open>ctx.createBuffer(numberOfChannels, length, sampleRate)\<close> of the audio context that
  \<open>decodeAudioData\<close> is given.
\<close>

type_synonym createBuffer = "nat \<Rightarrow> nat \<Rightarrow> nat \<Rightarrow> js_error + AudioBuffer"

text \<open>
  \<open>new Int16Array(data.buffer)\<close>: the bytes of the buffer in pairs, low byte first
  (the byte order of the platforms browsers run on).
\<close>

fun Int16Array :: "8 word list \<Rightarrow> 16 word list" where
  "Int16Array (lo # hi # rest) = word_cat hi lo # Int16Array rest"
| "Int16Array _ = []"

definition RangeError :: js_error where
  "RangeError = JsError (js ''RangeError'') (js ''byte length of Int16Array should be a multiple of 2'')"

definition NotSupportedError :: js_error where
  "NotSupportedError = JsError (js ''NotSupportedError'') (js ''The number of channels provided (0) is outside the range [1, 32].'')"

definition IndexSizeError :: js_error where
  "IndexSizeError = JsError (js ''IndexSizeError'') (js ''channel index exceeds number of channels'')"

text \<open>\<open>dataInt16[index] / 32768.0\<close>; a read past the end is \<open>undefined\<close>.\<close>

definition sample_at :: "16 word list \<Rightarrow> nat \<Rightarrow> float32" where
  "sample_at dataInt16 index =
     (if index < length dataInt16 then Sample (real_of_int (sint (dataInt16 ! index)) / 32768)
      else NaN)"

text \<open>The inner loop; a typed array ignores a write past its end.\<close>

definition fill_channel :: "16 word list \<Rightarrow> nat \<Rightarrow> nat \<Rightarrow> nat \<Rightarrow> float32 list \<Rightarrow> float32 list" where
  "fill_channel dataInt16 numChannels channel frameCount channelData =
     fold (\<lambda>i channelData. channelData[i := sample_at dataInt16 (i * numChannels + channel)])
       [0..<frameCount] channelData"

text \<open>The outer loop, over the channels still to do; \<open>getChannelData\<close> throws for a
  channel that the buffer does not have.\<close>

fun fill_channels ::
  "16 word list \<Rightarrow> nat \<Rightarrow> nat \<Rightarrow> nat list \<Rightarrow> AudioBuffer \<Rightarrow> js_error + AudioBuffer" where
  "fill_channels dataInt16 numChannels frameCount [] buffer = Inr buffer"
| "fill_channels dataInt16 numChannels frameCount (channel # rest) buffer =
     (if channel < length (channels buffer) then
        fill_channels dataInt16 numChannels frameCount rest
          (buffer\<lparr>channels := (channels buffer)
             [channel := fill_channel dataInt16 numChannels channel frameCount
                           (channels buffer ! channel)]\<rparr>)
      else Inl IndexSizeError)"

text \<open>
  \<open>decodeAudioData\<close>. With no channels \<open>frameCount\<close> is not a number and
  \<open>createBuffer\<close> refuses. Where \<open>numChannels\<close> does not divide the number of
  samples, \<open>createBuffer\<close> truncates the fractional \<open>frameCount\<close> and the one further
  pass of the inner loop writes past the end of the channel, which is ignored.
\<close>

definition decodeAudioData ::
  "8 word list \<Rightarrow> createBuffer \<Rightarrow> nat \<Rightarrow> nat \<Rightarrow> js_error + AudioBuffer" where
  "decodeAudioData data createBuffer sampleRate numChannels =
     (if odd (length data) then Inl RangeError
      else if numChannels = 0 then Inl NotSupportedError
      else
        (let dataInt16 = Int16Array data;
             frameCount = length dataInt16 div numChannels
         in case createBuffer numChannels frameCount sampleRate of
              Inl error \<Rightarrow> Inl error
            | Inr buffer \<Rightarrow> fill_channels dataInt16 numChannels frameCount [0..<numChannels] buffer))"

section \<open>types.ts\<close>

text \<open>
  Values have their declared TypeScript types. The members of the enum
  \<open>LanguageCode\<close> are named by their string values.
\<close>

datatype LanguageCode = en_US | ml_IN | hi_IN | ta_IN | te_IN | kn_IN

datatype JobRole =
    Software_Engineer
  | Marketing_Specialist
  | Data_Analyst
  | Product_Manager
  | UX_Designer
  | Project_Manager
  | Full_Stack_Developer
  | Front_End_Developer
  | Back_End_Developer
  | Applications_Developer
  | Cyber_Security_Analyst
  | Data_Scientist
  | AI_ML_Engineer
  | Digital_Marketing_Specialist
  | E_commerce_Specialist
  | Cloud_Engineer
  | Junior_Web_Developer
  | QA_Tester

datatype ExperienceLevel = Entry_Level | Mid_Career | Senior

datatype InterviewState =
  Welcome | Language_select | Role_select | Level_select | In_progress | Feedback

datatype Speaker = User | Ai

record TranscriptMessage =
  msg_id :: nat
  speaker :: Speaker
  msg_text :: js_string

record InterviewFeedback =
  overallScore :: real
  strengths :: "js_string list"
  areasForImprovement :: "js_string list"
  actionableTips :: "js_string list"

section \<open>InterviewScreen: the component\<close>

datatype InterviewStatus =
  Starting | Ai_speaking | Waiting_for_user | Recording | Processing_answer | Finished

text \<open>The fields of a \<open>Turn\<close> are prefixed with \<open>turn_\<close>; \<open>None\<close> is an absent field.\<close>

record Turn =
  turn_id :: nat
  turn_question :: js_string
  turn_answer :: "js_string option"
  turn_feedback :: "js_string option"
  turn_score :: "real option"

text \<open>An entry of the conversation history: \<open>{ role, parts: [{ text }] }\<close>.\<close>

datatype content_role = Role_user | Role_model

datatype content = Content content_role js_string

text \<open>
  The three requests the component makes: speech for a text; the next turn for a
  history, with the system instruction on the first; the feedback for a prompt.
\<close>

datatype request =
    SpeechRequest js_string
  | TurnRequest "content list" "js_string option"
  | FeedbackRequest js_string

text \<open>
  Of a response the component reads \<open>response.text\<close> and
  \<open>response.candidates?.[0]?.content?.parts?.[0]?.inlineData?.data\<close>.
\<close>

record response =
  response_text :: "js_string option"
  inlineData :: "js_string option"

text \<open>
  The object that a turn response parses to. Every use of \<open>nextQuestion\<close> in the
  source tests its truthiness, so an absent \<open>nextQuestion\<close> is the empty string here.
\<close>

record TurnData =
  td_feedback :: "js_string option"
  td_score :: "real option"
  nextQuestion :: js_string

text \<open>
  What the component takes from outside: the service, \<open>JSON.parse\<close> and
  \<open>JSON.stringify\<close> at the types they are used at, the prompts of \<open>constants\<close>,
  whether the browser has speech recognition, and the audio functions.
\<close>

record env =
  generateContent :: "(request, response) generateContent"
  JSON_parse_turn :: "js_string \<Rightarrow> js_error + TurnData"
  JSON_stringify_turn :: "TurnData \<Rightarrow> js_string"
  JSON_parse_feedback :: "js_string \<Rightarrow> js_error + InterviewFeedback"
  getSystemPrompt :: "js_string \<Rightarrow> JobRole \<Rightarrow> ExperienceLevel \<Rightarrow> js_string"
  getFeedbackPrompt ::
    "TranscriptMessage list \<Rightarrow> js_string \<Rightarrow> JobRole \<Rightarrow> ExperienceLevel \<Rightarrow> js_string"
  SpeechRecognitionAPI :: bool
  env_atob :: atob
  env_createBuffer :: createBuffer

text \<open>
  The state of the component: its four state variables, the conversation history
  reference, the \<open>transcript\<close> variable of the recognition effect, whether recognition
  is running, whether the microphone is visualised, and the buffer being played. The
  last three fields record what the component did: every argument of \<open>setStatus\<close>, the
  number of calls of the service, and the calls of \<open>onInterviewEnd\<close>.
\<close>

record InterviewScreen_state =
  status :: InterviewStatus
  turns :: "Turn list"
  isGeneratingFeedback :: bool
  finalAnswer :: "js_string option"
  conversationHistory :: "content list"
  recognized :: js_string
  listening :: bool
  visualizing :: bool
  playing :: "AudioBuffer option"
  statusLog :: "InterviewStatus list"
  apiCalls :: nat
  onInterviewEnd_calls :: "(TranscriptMessage list \<times> InterviewFeedback) list"

definition InterviewScreen_initial :: InterviewScreen_state where
  "InterviewScreen_initial =
     \<lparr>status = Starting, turns = [], isGeneratingFeedback = False, finalAnswer = None,
      conversationHistory = [], recognized = [], listening = False, visualizing = False,
      playing = None, statusLog = [], apiCalls = 0, onInterviewEnd_calls = []\<rparr>"

definition setStatus :: "InterviewStatus \<Rightarrow> InterviewScreen_state \<Rightarrow> InterviewScreen_state" where
  "setStatus v s = s\<lparr>status := v, statusLog := statusLog s @ [v]\<rparr>"

definition SyntaxError :: js_error where
  "SyntaxError = JsError (js ''SyntaxError'') (js ''Unexpected token in JSON'')"

text \<open>\<open>JSON.parse(response.text)\<close>; an undefined text is not JSON.\<close>

definition parse_turn :: "env \<Rightarrow> response \<Rightarrow> js_error + TurnData" where
  "parse_turn env response =
     (case response_text response of
        None \<Rightarrow> Inl SyntaxError
      | Some t \<Rightarrow> JSON_parse_turn env t)"

definition parse_feedback :: "env \<Rightarrow> response \<Rightarrow> js_error + InterviewFeedback" where
  "parse_feedback env response =
     (case response_text response of
        None \<Rightarrow> Inl SyntaxError
      | Some t \<Rightarrow> JSON_parse_feedback env t)"

text \<open>
  \<open>speakText\<close>. Every failure inside its \<open>try\<close> is caught. When the audio decodes,
  playback starts, and \<open>source.onended\<close> runs later.
\<close>

definition speakText :: "env \<Rightarrow> js_string \<Rightarrow> InterviewScreen_state \<Rightarrow> InterviewScreen_state" where
  "speakText env t s =
     (if t = [] then s
      else
        (let s = setStatus Ai_speaking s;
             run = generateContentWithRetry (generateContent env) (SpeechRequest t) (apiCalls s);
             s = s\<lparr>apiCalls := calls run\<rparr>
         in case outcome run of
              Inl error \<Rightarrow> setStatus Waiting_for_user s
            | Inr response \<Rightarrow>
                (case inlineData response of
                   None \<Rightarrow> setStatus Waiting_for_user s
                 | Some base64Audio \<Rightarrow>
                     if base64Audio = [] then setStatus Waiting_for_user s
                     else
                       (case decode (env_atob env) base64Audio of
                          Inl error \<Rightarrow> setStatus Waiting_for_user s
                        | Inr bytes \<Rightarrow>
                            (case decodeAudioData bytes (env_createBuffer env) 24000 1 of
                               Inl error \<Rightarrow> setStatus Waiting_for_user s
                             | Inr audioBuffer \<Rightarrow> s\<lparr>playing := Some audioBuffer\<rparr>)))))"

definition source_onended :: "InterviewScreen_state \<Rightarrow> InterviewScreen_state" where
  "source_onended s = setStatus Waiting_for_user (s\<lparr>playing := None\<rparr>)"

definition startInterview ::
  "env \<Rightarrow> js_string \<Rightarrow> JobRole \<Rightarrow> ExperienceLevel \<Rightarrow> nat \<Rightarrow>
   InterviewScreen_state \<Rightarrow> InterviewScreen_state" where
  "startInterview env languageName role level now s =
     (let s = setStatus Processing_answer s;
          systemInstruction = getSystemPrompt env languageName role level;
          startMessage = Content Role_user (js ''Start the interview.'');
          run = generateContentWithRetry (generateContent env)
                  (TurnRequest [startMessage] (Some systemInstruction)) (apiCalls s);
          s = s\<lparr>apiCalls := calls run\<rparr>
      in case outcome run of
           Inl error \<Rightarrow> setStatus Finished s
         | Inr response \<Rightarrow>
             (case parse_turn env response of
                Inl error \<Rightarrow> setStatus Finished s
              | Inr turnData \<Rightarrow>
                  (let firstQuestion = nextQuestion turnData
                   in speakText env firstQuestion
                        (s\<lparr>turns := [\<lparr>turn_id = now, turn_question = firstQuestion,
                                      turn_answer = None, turn_feedback = None,
                                      turn_score = None\<rparr>],
                           conversationHistory :=
                             [startMessage,
                              Content Role_model (JSON_stringify_turn env turnData)]\<rparr>))))"

text \<open>\<open>String.prototype.trim\<close>: white space and line terminators of ECMAScript.\<close>

definition isWhiteSpace :: "16 word \<Rightarrow> bool" where
  "isWhiteSpace c \<longleftrightarrow>
     c \<in> {0x0009, 0x000A, 0x000B, 0x000C, 0x000D, 0x0020, 0x00A0, 0x1680, 0x2028, 0x2029,
          0x202F, 0x205F, 0x3000, 0xFEFF} \<or> (0x2000 \<le> c \<and> c \<le> 0x200A)"

definition trim :: "js_string \<Rightarrow> js_string" where
  "trim s = rev (dropWhile isWhiteSpace (rev (dropWhile isWhiteSpace s)))"

text \<open>
  \<open>handleAnswerSubmit\<close>. Reading the id of the last turn is outside the \<open>try\<close>: with
  no turns it throws and the function stops there. In the update of the last turn the
  list is not empty.
\<close>

definition handleAnswerSubmit ::
  "env \<Rightarrow> nat \<Rightarrow> js_string \<Rightarrow> InterviewScreen_state \<Rightarrow> InterviewScreen_state" where
  "handleAnswerSubmit env now answer s =
     (if trim answer = [] then setStatus Waiting_for_user s
      else
        (let s = setStatus Processing_answer s
         in case rev (turns s) of
              [] \<Rightarrow> s
            | lastTurn # earlier \<Rightarrow>
                (let currentTurnId = turn_id lastTurn;
                     s = s\<lparr>turns := map (\<lambda>t. if turn_id t = currentTurnId
                                               then t\<lparr>turn_answer := Some answer\<rparr> else t)
                                       (turns s)\<rparr>;
                     updatedHistory = conversationHistory s @ [Content Role_user answer];
                     run = generateContentWithRetry (generateContent env)
                             (TurnRequest updatedHistory None) (apiCalls s);
                     s = s\<lparr>apiCalls := calls run\<rparr>;
                     s = (case outcome run of
                            Inl error \<Rightarrow> setStatus Waiting_for_user s
                          | Inr response \<Rightarrow>
                              (case parse_turn env response of
                                 Inl error \<Rightarrow> setStatus Waiting_for_user s
                               | Inr turnData \<Rightarrow>
                                   (let prevTurns = turns s;
                                        updatedLastTurn =
                                          (last prevTurns)\<lparr>turn_feedback := td_feedback turnData,
                                                            turn_score := td_score turnData\<rparr>;
                                        s = s\<lparr>turns :=
                                              (if nextQuestion turnData \<noteq> [] then
                                                 butlast prevTurns @ [updatedLastTurn,
                                                   \<lparr>turn_id = now,
                                                    turn_question = nextQuestion turnData,
                                                    turn_answer = None, turn_feedback = None,
                                                    turn_score = None\<rparr>]
                                               else butlast prevTurns @ [updatedLastTurn]),
                                            conversationHistory :=
                                              updatedHistory @
                                              [Content Role_model
                                                 (JSON_stringify_turn env turnData)]\<rparr>
                                    in if nextQuestion turnData \<noteq> []
                                       then speakText env (nextQuestion turnData) s
                                       else setStatus Finished s)))
                 in s\<lparr>finalAnswer := None\<rparr>)))"

definition stopMicrophoneVisualization :: "InterviewScreen_state \<Rightarrow> InterviewScreen_state" where
  "stopMicrophoneVisualization s = s\<lparr>visualizing := False\<rparr>"

text \<open>The result and error callbacks of the speech recognition.\<close>

definition recognition_onresult :: "js_string \<Rightarrow> InterviewScreen_state \<Rightarrow> InterviewScreen_state" where
  "recognition_onresult heard s = s\<lparr>recognized := heard\<rparr>"

definition recognition_onerror :: "InterviewScreen_state \<Rightarrow> InterviewScreen_state" where
  "recognition_onerror s = setStatus Waiting_for_user (stopMicrophoneVisualization s)"

text \<open>
  \<open>handleToggleRecording\<close>; \<open>micGranted\<close> is whether \<open>getUserMedia\<close> resolves.
  \<open>recognition.start()\<close> throws when recognition is already running, after the status
  has been set; the \<open>catch\<close> only alerts.
\<close>

definition handleToggleRecording ::
  "env \<Rightarrow> bool \<Rightarrow> InterviewScreen_state \<Rightarrow> InterviewScreen_state" where
  "handleToggleRecording env micGranted s =
     (if \<not> SpeechRecognitionAPI env then s
      else if status s = Recording then s
      else if status s = Waiting_for_user then
        (if micGranted then
           (let s = setStatus Recording (s\<lparr>visualizing := True\<rparr>)
            in if listening s then s else s\<lparr>listening := True\<rparr>)
         else s)
      else s)"

text \<open>The \<open>reduce\<close> that assembles the final transcript; \<open>push\<close> appends.\<close>

definition assembleTranscript :: "Turn list \<Rightarrow> TranscriptMessage list" where
  "assembleTranscript ts =
     foldl (\<lambda>acc turn.
        (let acc = acc @ [\<lparr>msg_id = turn_id turn, speaker = Ai, msg_text = turn_question turn\<rparr>]
         in case turn_answer turn of
              None \<Rightarrow> acc
            | Some answer \<Rightarrow>
                if answer \<noteq> []
                then acc @ [\<lparr>msg_id = turn_id turn + 1, speaker = User, msg_text = answer\<rparr>]
                else acc)) [] ts"

definition fallbackFeedback :: InterviewFeedback where
  "fallbackFeedback =
     \<lparr>overallScore = 0,
      strengths = [js ''Could not generate feedback.''],
      areasForImprovement = [js ''There was an error analyzing the transcript.''],
      actionableTips = [js ''Please try another interview.'']\<rparr>"

definition onInterviewEnd ::
  "TranscriptMessage list \<Rightarrow> InterviewFeedback \<Rightarrow> InterviewScreen_state \<Rightarrow> InterviewScreen_state" where
  "onInterviewEnd transcript fb s =
     s\<lparr>onInterviewEnd_calls := onInterviewEnd_calls s @ [(transcript, fb)]\<rparr>"

definition handleEndInterview ::
  "env \<Rightarrow> js_string \<Rightarrow> JobRole \<Rightarrow> ExperienceLevel \<Rightarrow>
   InterviewScreen_state \<Rightarrow> InterviewScreen_state" where
  "handleEndInterview env languageName role level s =
     (let s = setStatus Finished (s\<lparr>isGeneratingFeedback := True\<rparr>);
          transcript = assembleTranscript (turns s);
          prompt = getFeedbackPrompt env transcript languageName role level;
          run = generateContentWithRetry (generateContent env) (FeedbackRequest prompt)
                  (apiCalls s);
          s = s\<lparr>apiCalls := calls run\<rparr>;
          s = (case outcome run of
                 Inl error \<Rightarrow> onInterviewEnd transcript fallbackFeedback s
               | Inr response \<Rightarrow>
                   (case parse_feedback env response of
                      Inl error \<Rightarrow> onInterviewEnd transcript fallbackFeedback s
                    | Inr feedbackJson \<Rightarrow> onInterviewEnd transcript feedbackJson s))
      in s\<lparr>isGeneratingFeedback := False\<rparr>)"




text \<open>Two environments for examples: no network; and a service that answers.\<close>

definition offline_env :: env where
  "offline_env =
     \<lparr>generateContent = (\<lambda>request n. Inl (JsError (js ''TypeError'') (js ''Failed to fetch''))),
      JSON_parse_turn = (\<lambda>t. Inl SyntaxError),
      JSON_stringify_turn = (\<lambda>turnData. []),
      JSON_parse_feedback = (\<lambda>t. Inl SyntaxError),
      getSystemPrompt = (\<lambda>languageName role level. js ''You are an interviewer.''),
      getFeedbackPrompt = (\<lambda>transcript languageName role level. js ''Assess the interview.''),
      SpeechRecognitionAPI = True,
      env_atob = (\<lambda>base64. Inl (JsError (js ''InvalidCharacterError'') [])),
      env_createBuffer = (\<lambda>numberOfChannels len rate. Inl NotSupportedError)\<rparr>"

definition good_feedback :: InterviewFeedback where
  "good_feedback =
     \<lparr>overallScore = 82, strengths = [js ''Clear answers''],
      areasForImprovement = [js ''More examples''], actionableTips = [js ''Practise aloud'']\<rparr>"

definition online_env :: env where
  "online_env =
     offline_env
       \<lparr>generateContent :=
          (\<lambda>request n. Inr \<lparr>response_text = Some (js ''{}''), inlineData = None\<rparr>),
        JSON_parse_turn :=
          (\<lambda>t. Inr \<lparr>td_feedback = None, td_score = None,
                      nextQuestion = js ''Tell me about yourself.''\<rparr>),
        JSON_parse_feedback := (\<lambda>t. Inr good_feedback)\<rparr>"

section \<open>InterviewScreen: the steps between awaits\<close>

text \<open>
  The handlers above are runs of one call during whose awaits nothing else happens.
  In the component a handler stops at each \<open>await\<close>, and other handlers run before it
  resumes. Here every handler is cut at its awaits. What is awaited:
  the response of \<open>startInterview\<close>; the speech for a text, with whether
  \<open>handleAnswerSubmit\<close> made the call (its \<open>finally\<close> runs when \<open>speakText\<close> returns);
  the end of a playback; the response to an answer, with the history that was sent;
  the microphone; the feedback for a transcript. The calls of the service that a
  request makes, with its retries, are counted when its response arrives.
\<close>

datatype pending =
    AwaitStart
  | AwaitSpeech js_string bool
  | AwaitPlayback
  | AwaitAnswer "content list"
  | AwaitMicrophone
  | AwaitFeedback "TranscriptMessage list"

text \<open>
  A run of the component: its state; the awaits that are open; whether a dependency of
  the effect on \<open>[finalAnswer, handleAnswerSubmit]\<close> has changed since the effect last
  ran; whether the mount effect has run; and whether the component is still mounted.
\<close>

record InterviewScreen_run =
  component :: InterviewScreen_state
  awaiting :: "pending list"
  effectDue :: bool
  started :: bool
  mounted :: bool


text \<open>
  \<open>handleAnswerSubmit\<close> is rebuilt whenever \<open>turns\<close> is a new array, and every
  \<open>setTurns\<close> of the source makes a new one; \<open>setFinalAnswer\<close> changes the other
  dependency unless it sets the value that is there.
\<close>

definition setTurns :: "Turn list \<Rightarrow> InterviewScreen_run \<Rightarrow> InterviewScreen_run" where
  "setTurns ts r = r\<lparr>component := (component r)\<lparr>turns := ts\<rparr>, effectDue := True\<rparr>"

definition setFinalAnswer :: "js_string option \<Rightarrow> InterviewScreen_run \<Rightarrow> InterviewScreen_run" where
  "setFinalAnswer v r =
     r\<lparr>component := (component r)\<lparr>finalAnswer := v\<rparr>,
       effectDue := (effectDue r \<or> finalAnswer (component r) \<noteq> v)\<rparr>"

definition await :: "pending \<Rightarrow> InterviewScreen_run \<Rightarrow> InterviewScreen_run" where
  "await p r = r\<lparr>awaiting := awaiting r @ [p]\<rparr>"

text \<open>The \<open>finally\<close> of \<open>handleAnswerSubmit\<close>.\<close>

definition handleAnswerSubmit_finally :: "InterviewScreen_run \<Rightarrow> InterviewScreen_run" where
  "handleAnswerSubmit_finally r = setFinalAnswer None r"

text \<open>\<open>speakText\<close> up to its request, and from the response on.\<close>

definition speakText_begin :: "bool \<Rightarrow> js_string \<Rightarrow> InterviewScreen_run \<Rightarrow> InterviewScreen_run" where
  "speakText_begin fromAnswer t r =
     (if t = [] then (if fromAnswer then handleAnswerSubmit_finally r else r)
      else await (AwaitSpeech t fromAnswer)
             (r\<lparr>component := setStatus Ai_speaking (component r)\<rparr>))"

definition speakText_resume ::
  "env \<Rightarrow> js_string \<Rightarrow> bool \<Rightarrow> InterviewScreen_run \<Rightarrow> InterviewScreen_run" where
  "speakText_resume env t fromAnswer r =
     (let s = component r;
          run = generateContentWithRetry (generateContent env) (SpeechRequest t) (apiCalls s);
          s = s\<lparr>apiCalls := calls run\<rparr>;
          silent = r\<lparr>component := setStatus Waiting_for_user s\<rparr>;
          r = (case outcome run of
                 Inl error \<Rightarrow> silent
               | Inr response \<Rightarrow>
                   (case inlineData response of
                      None \<Rightarrow> silent
                    | Some base64Audio \<Rightarrow>
                        if base64Audio = [] then silent
                        else
                          (case decode (env_atob env) base64Audio of
                             Inl error \<Rightarrow> silent
                           | Inr bytes \<Rightarrow>
                               (case decodeAudioData bytes (env_createBuffer env) 24000 1 of
                                  Inl error \<Rightarrow> silent
                                | Inr audioBuffer \<Rightarrow>
                                    await AwaitPlayback
                                      (r\<lparr>component := s\<lparr>playing := Some audioBuffer\<rparr>\<rparr>)))))
      in if fromAnswer then handleAnswerSubmit_finally r else r)"

text \<open>\<open>startInterview\<close> up to its request, and from the response on.\<close>

definition startInterview_begin :: "InterviewScreen_run \<Rightarrow> InterviewScreen_run" where
  "startInterview_begin r =
     await AwaitStart (r\<lparr>component := setStatus Processing_answer (component r), started := True\<rparr>)"

definition startInterview_resume ::
  "env \<Rightarrow> js_string \<Rightarrow> JobRole \<Rightarrow> ExperienceLevel \<Rightarrow> nat \<Rightarrow>
   InterviewScreen_run \<Rightarrow> InterviewScreen_run" where
  "startInterview_resume env languageName role level now r =
     (let s = component r;
          systemInstruction = getSystemPrompt env languageName role level;
          startMessage = Content Role_user (js ''Start the interview.'');
          run = generateContentWithRetry (generateContent env)
                  (TurnRequest [startMessage] (Some systemInstruction)) (apiCalls s);
          s = s\<lparr>apiCalls := calls run\<rparr>
      in case outcome run of
           Inl error \<Rightarrow> r\<lparr>component := setStatus Finished s\<rparr>
         | Inr response \<Rightarrow>
             (case parse_turn env response of
                Inl error \<Rightarrow> r\<lparr>component := setStatus Finished s\<rparr>
              | Inr turnData \<Rightarrow>
                  (let firstQuestion = nextQuestion turnData;
                       r = setTurns [\<lparr>turn_id = now, turn_question = firstQuestion,
                                      turn_answer = None, turn_feedback = None,
                                      turn_score = None\<rparr>] (r\<lparr>component := s\<rparr>);
                       r = r\<lparr>component := (component r)
                              \<lparr>conversationHistory :=
                                 [startMessage,
                                  Content Role_model (JSON_stringify_turn env turnData)]\<rparr>\<rparr>
                   in speakText_begin False firstQuestion r)))"

text \<open>
  \<open>handleAnswerSubmit\<close> up to its request, and from the response on. The \<open>turns\<close> it
  reads for the id of the last turn are those of the render that built it, which are
  the current ones when the effect calls it.
\<close>

definition handleAnswerSubmit_begin :: "js_string \<Rightarrow> InterviewScreen_run \<Rightarrow> InterviewScreen_run" where
  "handleAnswerSubmit_begin answer r =
     (if trim answer = [] then r\<lparr>component := setStatus Waiting_for_user (component r)\<rparr>
      else
        (let r = r\<lparr>component := setStatus Processing_answer (component r)\<rparr>
         in case rev (turns (component r)) of
              [] \<Rightarrow> r
            | lastTurn # earlier \<Rightarrow>
                (let currentTurnId = turn_id lastTurn;
                     r = setTurns (map (\<lambda>t. if turn_id t = currentTurnId
                                             then t\<lparr>turn_answer := Some answer\<rparr> else t)
                                     (turns (component r))) r;
                     updatedHistory =
                       conversationHistory (component r) @ [Content Role_user answer]
                 in await (AwaitAnswer updatedHistory) r)))"

definition handleAnswerSubmit_resume ::
  "env \<Rightarrow> nat \<Rightarrow> content list \<Rightarrow> InterviewScreen_run \<Rightarrow> InterviewScreen_run" where
  "handleAnswerSubmit_resume env now updatedHistory r =
     (let s = component r;
          run = generateContentWithRetry (generateContent env)
                  (TurnRequest updatedHistory None) (apiCalls s);
          s = s\<lparr>apiCalls := calls run\<rparr>;
          failed = handleAnswerSubmit_finally (r\<lparr>component := setStatus Waiting_for_user s\<rparr>)
      in case outcome run of
           Inl error \<Rightarrow> failed
         | Inr response \<Rightarrow>
             (case parse_turn env response of
                Inl error \<Rightarrow> failed
              | Inr turnData \<Rightarrow>
                  (let prevTurns = turns s;
                       updatedLastTurn =
                         (last prevTurns)\<lparr>turn_feedback := td_feedback turnData,
                                           turn_score := td_score turnData\<rparr>;
                       r = setTurns
                             (if nextQuestion turnData \<noteq> [] then
                                butlast prevTurns @ [updatedLastTurn,
                                  \<lparr>turn_id = now, turn_question = nextQuestion turnData,
                                   turn_answer = None, turn_feedback = None,
                                   turn_score = None\<rparr>]
                              else butlast prevTurns @ [updatedLastTurn])
                             (r\<lparr>component := s\<rparr>);
                       r = r\<lparr>component := (component r)
                              \<lparr>conversationHistory :=
                                 updatedHistory @
                                 [Content Role_model (JSON_stringify_turn env turnData)]\<rparr>\<rparr>
                   in if nextQuestion turnData \<noteq> []
                      then speakText_begin True (nextQuestion turnData) r
                      else handleAnswerSubmit_finally
                             (r\<lparr>component := setStatus Finished (component r)\<rparr>))))"

text \<open>
  The effect that submits a transcribed answer. It runs after every render in which
  \<open>finalAnswer\<close> or \<open>handleAnswerSubmit\<close> has changed, and so again after the
  \<open>setTurns\<close> of the submission it has just made, for as long as \<open>finalAnswer\<close> is set.
\<close>

definition finalAnswer_effect :: "InterviewScreen_run \<Rightarrow> InterviewScreen_run" where
  "finalAnswer_effect r =
     (let r = r\<lparr>effectDue := False\<rparr>
      in case finalAnswer (component r) of
           None \<Rightarrow> r
         | Some answer \<Rightarrow> if answer = [] then r else handleAnswerSubmit_begin answer r)"

text \<open>The end callback of the speech recognition.\<close>

definition recognition_onend :: "InterviewScreen_run \<Rightarrow> InterviewScreen_run" where
  "recognition_onend r =
     (let s = stopMicrophoneVisualization ((component r)\<lparr>listening := False\<rparr>)
      in if recognized s \<noteq> []
         then setFinalAnswer (Some (recognized s)) (r\<lparr>component := s\<rparr>)
         else r\<lparr>component := setStatus Waiting_for_user s\<rparr>)"

text \<open>
  \<open>handleToggleRecording\<close> up to \<open>getUserMedia\<close>, which tests the status, and from
  its answer on, which sets it.
\<close>

definition handleToggleRecording_begin :: "env \<Rightarrow> InterviewScreen_run \<Rightarrow> InterviewScreen_run" where
  "handleToggleRecording_begin env r =
     (if \<not> SpeechRecognitionAPI env then r
      else if status (component r) = Recording then r
      else if status (component r) = Waiting_for_user then await AwaitMicrophone r
      else r)"

definition handleToggleRecording_resume :: "bool \<Rightarrow> InterviewScreen_run \<Rightarrow> InterviewScreen_run" where
  "handleToggleRecording_resume micGranted r =
     (if micGranted then
        (let s = setStatus Recording ((component r)\<lparr>visualizing := True\<rparr>)
         in r\<lparr>component := (if listening s then s else s\<lparr>listening := True\<rparr>)\<rparr>)
      else r)"

text \<open>
  \<open>handleEndInterview\<close> up to its request, and from the response on. Its call of
  \<open>onInterviewEnd\<close> makes the app show the feedback, which unmounts the component.
\<close>

definition handleEndInterview_begin :: "InterviewScreen_run \<Rightarrow> InterviewScreen_run" where
  "handleEndInterview_begin r =
     (let s = setStatus Finished ((component r)\<lparr>isGeneratingFeedback := True\<rparr>)
      in await (AwaitFeedback (assembleTranscript (turns s))) (r\<lparr>component := s\<rparr>))"

definition handleEndInterview_resume ::
  "env \<Rightarrow> js_string \<Rightarrow> JobRole \<Rightarrow> ExperienceLevel \<Rightarrow> TranscriptMessage list \<Rightarrow>
   InterviewScreen_run \<Rightarrow> InterviewScreen_run" where
  "handleEndInterview_resume env languageName role level transcript r =
     (let s = component r;
          prompt = getFeedbackPrompt env transcript languageName role level;
          run = generateContentWithRetry (generateContent env) (FeedbackRequest prompt)
                  (apiCalls s);
          s = s\<lparr>apiCalls := calls run\<rparr>;
          s = (case outcome run of
                 Inl error \<Rightarrow> onInterviewEnd transcript fallbackFeedback s
               | Inr response \<Rightarrow>
                   (case parse_feedback env response of
                      Inl error \<Rightarrow> onInterviewEnd transcript fallbackFeedback s
                    | Inr feedbackJson \<Rightarrow> onInterviewEnd transcript feedbackJson s))
      in r\<lparr>component := s\<lparr>isGeneratingFeedback := False\<rparr>, mounted := False\<rparr>)"

text \<open>
  What can happen to a mounted component: the mount effect runs; an open await
  resolves (\<open>Date.now()\<close> is read then), the microphone with whether it was granted;
  the effect runs; the microphone button, enabled at waiting_for_user and recording, is
  clicked; the recognition, once started, gives a result, fails or ends; the end
  button, disabled at starting, recording and ai_speaking and while the feedback is
  generated, is clicked; the cancel button is clicked, which unmounts the component.
\<close>

datatype occurrence =
    Mounted
  | Resolved nat nat
  | MicrophoneResolved nat bool
  | EffectRuns
  | MicrophoneClicked
  | ResultHeard js_string
  | RecognitionFailed
  | RecognitionEnded
  | EndClicked
  | CancelClicked

definition resolve ::
  "env \<Rightarrow> js_string \<Rightarrow> JobRole \<Rightarrow> ExperienceLevel \<Rightarrow> nat \<Rightarrow> pending \<Rightarrow>
   InterviewScreen_run \<Rightarrow> InterviewScreen_run option" where
  "resolve env languageName role level now p r =
     (case p of
        AwaitStart \<Rightarrow> Some (startInterview_resume env languageName role level now r)
      | AwaitSpeech t fromAnswer \<Rightarrow> Some (speakText_resume env t fromAnswer r)
      | AwaitPlayback \<Rightarrow> Some (r\<lparr>component := source_onended (component r)\<rparr>)
      | AwaitAnswer updatedHistory \<Rightarrow> Some (handleAnswerSubmit_resume env now updatedHistory r)
      | AwaitMicrophone \<Rightarrow> None
      | AwaitFeedback transcript \<Rightarrow>
          Some (handleEndInterview_resume env languageName role level transcript r))"

definition occur ::
  "env \<Rightarrow> js_string \<Rightarrow> JobRole \<Rightarrow> ExperienceLevel \<Rightarrow> occurrence \<Rightarrow>
   InterviewScreen_run \<Rightarrow> InterviewScreen_run option" where
  "occur env languageName role level e r =
     (if \<not> mounted r then None
      else
        (case e of
           Mounted \<Rightarrow> if started r then None else Some (startInterview_begin r)
         | Resolved i now \<Rightarrow>
             if i < length (awaiting r)
             then resolve env languageName role level now (awaiting r ! i)
                    (r\<lparr>awaiting := take i (awaiting r) @ drop (Suc i) (awaiting r)\<rparr>)
             else None
         | MicrophoneResolved i micGranted \<Rightarrow>
             if i < length (awaiting r) \<and> awaiting r ! i = AwaitMicrophone
             then Some (handleToggleRecording_resume micGranted
                          (r\<lparr>awaiting := take i (awaiting r) @ drop (Suc i) (awaiting r)\<rparr>))
             else None
         | EffectRuns \<Rightarrow> if effectDue r then Some (finalAnswer_effect r) else None
         | MicrophoneClicked \<Rightarrow>
             if (status (component r) = Waiting_for_user \<or> status (component r) = Recording) \<and>
                \<not> isGeneratingFeedback (component r)
             then Some (handleToggleRecording_begin env r) else None
         | ResultHeard heard \<Rightarrow>
             if listening (component r)
             then Some (r\<lparr>component := recognition_onresult heard (component r)\<rparr>) else None
         | RecognitionFailed \<Rightarrow>
             if listening (component r)
             then Some (r\<lparr>component := recognition_onerror (component r)\<rparr>) else None
         | RecognitionEnded \<Rightarrow>
             if listening (component r) then Some (recognition_onend r) else None
         | EndClicked \<Rightarrow>
             if status (component r) \<noteq> Starting \<and> status (component r) \<noteq> Recording \<and>
                status (component r) \<noteq> Ai_speaking \<and> \<not> isGeneratingFeedback (component r)
             then Some (handleEndInterview_begin r) else None
         | CancelClicked \<Rightarrow>
             if isGeneratingFeedback (component r) then None else Some (r\<lparr>mounted := False\<rparr>)))"

text \<open>A sequence of occurrences; \<open>None\<close> when one of them cannot happen.\<close>

fun run_occurrences ::
  "env \<Rightarrow> js_string \<Rightarrow> JobRole \<Rightarrow> ExperienceLevel \<Rightarrow> occurrence list \<Rightarrow>
   InterviewScreen_run \<Rightarrow> InterviewScreen_run option" where
  "run_occurrences env languageName role level [] r = Some r"
| "run_occurrences env languageName role level (e # es) r =
     (case occur env languageName role level e r of
        None \<Rightarrow> None
      | Some r' \<Rightarrow> run_occurrences env languageName role level es r')"


section \<open>App: the top-level state machine\<close>

record App =
  interviewState :: InterviewState
  selectedLanguage :: "LanguageCode option"
  selectedRole :: "JobRole option"
  selectedLevel :: "ExperienceLevel option"
  finalTranscript :: "TranscriptMessage list"
  feedback :: "InterviewFeedback option"

text \<open>The initial values of the six \<open>useState\<close> hooks.\<close>

definition App_initial :: App where
  "App_initial =
     \<lparr>interviewState = Welcome, selectedLanguage = None, selectedRole = None,
      selectedLevel = None, finalTranscript = [], feedback = None\<rparr>"

definition handleGetStarted :: "App \<Rightarrow> App" where
  "handleGetStarted s = s\<lparr>interviewState := Language_select\<rparr>"

definition handleLanguageSelect :: "LanguageCode \<Rightarrow> App \<Rightarrow> App" where
  "handleLanguageSelect languageCode s =
     s\<lparr>selectedLanguage := Some languageCode, interviewState := Role_select\<rparr>"

definition handleRoleSelect :: "JobRole \<Rightarrow> App \<Rightarrow> App" where
  "handleRoleSelect role s = s\<lparr>selectedRole := Some role, interviewState := Level_select\<rparr>"

definition handleLevelSelect :: "ExperienceLevel \<Rightarrow> App \<Rightarrow> App" where
  "handleLevelSelect level s = s\<lparr>selectedLevel := Some level, interviewState := In_progress\<rparr>"

definition handleInterviewEnd :: "TranscriptMessage list \<Rightarrow> InterviewFeedback \<Rightarrow> App \<Rightarrow> App" where
  "handleInterviewEnd transcript fb s =
     s\<lparr>finalTranscript := transcript, feedback := Some fb, interviewState := Feedback\<rparr>"

definition handleRestart :: "App \<Rightarrow> App" where
  "handleRestart s =
     s\<lparr>selectedLanguage := None, selectedRole := None, selectedLevel := None,
       finalTranscript := [], feedback := None, interviewState := Welcome\<rparr>"

text \<open>
  What \<open>renderContent\<close> returns: the screen, with the props that carry state. The
  handlers a screen receives are given by \<open>handler\<close> below.
\<close>

datatype screen =
    WelcomeScreen
  | LanguageSelector
  | RoleSelector
  | LevelSelector
  | InterviewScreen LanguageCode JobRole ExperienceLevel
  | FeedbackScreen InterviewFeedback "TranscriptMessage list"
  | ErrorText
  | Null

text \<open>
  \<open>renderContent\<close> returns the screen and the state it leaves: its fallback for an
  interview without a selection calls \<open>setInterviewState\<close>.
\<close>

definition renderContent :: "App \<Rightarrow> screen \<times> App" where
  "renderContent s =
     (case interviewState s of
        Welcome \<Rightarrow> (WelcomeScreen, s)
      | Language_select \<Rightarrow> (LanguageSelector, s)
      | Role_select \<Rightarrow> (RoleSelector, s)
      | Level_select \<Rightarrow> (LevelSelector, s)
      | In_progress \<Rightarrow>
          (case (selectedLanguage s, selectedRole s, selectedLevel s) of
             (Some language, Some role, Some level) \<Rightarrow> (InterviewScreen language role level, s)
           | _ \<Rightarrow> (Null, s\<lparr>interviewState := Language_select\<rparr>))
      | Feedback \<Rightarrow>
          (case feedback s of
             None \<Rightarrow> (ErrorText, s)
           | Some fb \<Rightarrow> (FeedbackScreen fb (finalTranscript s), s)))"

text \<open>The calls a rendered screen can make of the handlers it was given.\<close>

datatype event =
    GetStarted
  | SelectLanguage LanguageCode
  | SelectRole JobRole
  | SelectLevel ExperienceLevel
  | InterviewEnd "TranscriptMessage list" InterviewFeedback
  | Cancel
  | Restart

fun handler :: "screen \<Rightarrow> event \<Rightarrow> (App \<Rightarrow> App) option" where
  "handler WelcomeScreen GetStarted = Some handleGetStarted"
| "handler LanguageSelector (SelectLanguage languageCode) = Some (handleLanguageSelect languageCode)"
| "handler RoleSelector (SelectRole role) = Some (handleRoleSelect role)"
| "handler LevelSelector (SelectLevel level) = Some (handleLevelSelect level)"
| "handler (InterviewScreen language role level) (InterviewEnd transcript fb) =
     Some (handleInterviewEnd transcript fb)"
| "handler (InterviewScreen language role level) Cancel = Some handleRestart"
| "handler (FeedbackScreen fb transcript) Restart = Some handleRestart"
| "handler _ _ = None"

text \<open>The states of the app: it starts, renders, and screens call their handlers.\<close>

inductive reachable :: "App \<Rightarrow> bool" where
  start: "reachable App_initial"
| render: "reachable s \<Longrightarrow> reachable (snd (renderContent s))"
| call: "reachable s \<Longrightarrow> handler (fst (renderContent s)) e = Some h \<Longrightarrow> reachable (h s)"

text \<open>The order of the steps, as the specification gives it.\<close>

fun next_step :: "InterviewState \<Rightarrow> InterviewState option" where
  "next_step Welcome = Some Language_select"
| "next_step Language_select = Some Role_select"
| "next_step Role_select = Some Level_select"
| "next_step Level_select = Some In_progress"
| "next_step In_progress = Some Feedback"
| "next_step Feedback = None"

section \<open>FeedbackScreen: saving a report\<close>

text \<open>The values of JSON.\<close>

datatype json =
    JNull
  | JBool bool
  | JNumber real
  | JString js_string
  | JArray "json list"
  | JObject "(js_string \<times> json) list"

text \<open>What \<open>JSON.stringify\<close> writes of a transcript message and of a feedback.\<close>

definition message_json :: "TranscriptMessage \<Rightarrow> json" where
  "message_json m =
     JObject [(js ''id'', JNumber (real (msg_id m))),
              (js ''speaker'', JString (case speaker m of User \<Rightarrow> js ''user'' | Ai \<Rightarrow> js ''ai'')),
              (js ''text'', JString (msg_text m))]"

definition feedback_json :: "InterviewFeedback \<Rightarrow> json" where
  "feedback_json fb =
     JObject [(js ''overallScore'', JNumber (overallScore fb)),
              (js ''strengths'', JArray (map JString (strengths fb))),
              (js ''areasForImprovement'', JArray (map JString (areasForImprovement fb))),
              (js ''actionableTips'', JArray (map JString (actionableTips fb)))]"

text \<open>
  A string kept in \<open>localStorage\<close>, up to what \<open>JSON.parse\<close> makes of it: the empty
  string; the text that \<open>JSON.stringify\<close> writes of a value, which \<open>JSON.parse\<close> reads
  back as that value; or a text that \<open>JSON.parse\<close> rejects.
\<close>

datatype stored_string = EmptyString | JsonText json | NotJson

definition JSON_stringify :: "json \<Rightarrow> stored_string" where
  "JSON_stringify v = JsonText v"

definition JSON_parse :: "stored_string \<Rightarrow> js_error + json" where
  "JSON_parse raw = (case raw of JsonText v \<Rightarrow> Inr v | _ \<Rightarrow> Inl SyntaxError)"

type_synonym storage = "js_string \<rightharpoonup> stored_string"

definition TypeError :: js_error where
  "TypeError = JsError (js ''TypeError'') (js ''existingReports.unshift is not a function'')"

definition QuotaExceededError :: js_error where
  "QuotaExceededError = JsError (js ''QuotaExceededError'') (js ''The quota has been exceeded.'')"

text \<open>The decimal digits of a number, for the template string of the report id.\<close>

fun decimal :: "nat \<Rightarrow> js_string" where
  "decimal n =
     (if n < 10 then [of_nat (48 + n)]
      else decimal (n div 10) @ [of_nat (48 + n mod 10)])"

declare decimal.simps [simp del]

definition reports_key :: js_string where
  "reports_key = js ''ai-interview-reports''"

text \<open>
  The report that \<open>handleSave\<close> builds; \<open>now\<close> is \<open>Date.now()\<close> and \<open>savedAt\<close> is
  \<open>new Date().toISOString()\<close>.
\<close>

definition new_report :: "nat \<Rightarrow> js_string \<Rightarrow> InterviewFeedback \<Rightarrow> TranscriptMessage list \<Rightarrow> json" where
  "new_report now savedAt fb transcript =
     JObject [(js ''id'', JString (js ''report-'' @ decimal now)),
              (js ''feedback'', feedback_json fb),
              (js ''transcript'', JArray (map message_json transcript)),
              (js ''savedAt'', JString savedAt)]"

text \<open>
  \<open>existingReportsRaw ? JSON.parse(existingReportsRaw) : []\<close>: a missing item and the
  empty string are falsy.
\<close>

definition existingReports :: "storage \<Rightarrow> js_error + json" where
  "existingReports store =
     (case store reports_key of
        None \<Rightarrow> Inr (JArray [])
      | Some existingReportsRaw \<Rightarrow>
          if existingReportsRaw = EmptyString then Inr (JArray [])
          else JSON_parse existingReportsRaw)"

text \<open>
  The body of the \<open>try\<close>. Only an array has \<open>unshift\<close>; \<open>fits\<close> is whether the
  browser has room for the new text, and \<open>setItem\<close> throws when it has not.
\<close>

definition save_report ::
  "(stored_string \<Rightarrow> bool) \<Rightarrow> nat \<Rightarrow> js_string \<Rightarrow> InterviewFeedback \<Rightarrow> TranscriptMessage list \<Rightarrow>
   storage \<Rightarrow> js_error + storage" where
  "save_report fits now savedAt fb transcript store =
     (let report = new_report now savedAt fb transcript
      in case existingReports store of
           Inl error \<Rightarrow> Inl error
         | Inr (JArray reports) \<Rightarrow>
             (let text_written = JSON_stringify (JArray (report # reports))
              in if fits text_written then Inr (store(reports_key \<mapsto> text_written))
                 else Inl QuotaExceededError)
         | Inr other \<Rightarrow> Inl TypeError)"

record FeedbackScreen_state =
  isTranscriptVisible :: bool
  isSaved :: bool
  localStorage :: storage
  alerts :: nat

definition handleSave ::
  "(stored_string \<Rightarrow> bool) \<Rightarrow> nat \<Rightarrow> js_string \<Rightarrow> InterviewFeedback \<Rightarrow> TranscriptMessage list \<Rightarrow>
   FeedbackScreen_state \<Rightarrow> FeedbackScreen_state" where
  "handleSave fits now savedAt fb transcript s =
     (case save_report fits now savedAt fb transcript (localStorage s) of
        Inr store \<Rightarrow> s\<lparr>localStorage := store, isSaved := True\<rparr>
      | Inl error \<Rightarrow> s\<lparr>alerts := alerts s + 1\<rparr>)"

section \<open>Properties of the retry wrapper\<close>

lemma rateLimited_iff:
  "rateLimited gen request n \<longleftrightarrow> (\<exists>e. gen request n = Inl e \<and> isRateLimit e)"
  by (simp add: rateLimited_def split: sum.splits)

lemma retry_loop_unfold_rate:
  assumes "attempt < MAX_RETRIES" "rateLimited gen request n" "Suc attempt < MAX_RETRIES"
  shows "retry_loop gen request attempt n slept =
         retry_loop gen request (Suc attempt) (Suc n) (slept @ [backoff (Suc attempt)])"
  using assms
  by (subst retry_loop.simps) (simp add: rateLimited_def backoff_def split: sum.splits)

lemma retry_loop_skip:
  "attempt + k < MAX_RETRIES \<Longrightarrow> (\<forall>i<k. rateLimited gen request (n + i)) \<Longrightarrow>
   retry_loop gen request attempt n slept =
   retry_loop gen request (attempt + k) (n + k)
     (slept @ map backoff [Suc attempt..<Suc (attempt + k)])"
proof (induction k arbitrary: attempt n slept)
  case 0
  then show ?case by simp
next
  case (Suc k)
  have r0: "rateLimited gen request n"
    using Suc.prems(2) by force
  have rest: "\<forall>i<k. rateLimited gen request (Suc n + i)"
    using Suc.prems(2) by force
  have "retry_loop gen request attempt n slept =
        retry_loop gen request (Suc attempt) (Suc n) (slept @ [backoff (Suc attempt)])"
    using Suc.prems(1) r0 by (intro retry_loop_unfold_rate) auto
  also have "\<dots> = retry_loop gen request (Suc attempt + k) (Suc n + k)
        ((slept @ [backoff (Suc attempt)]) @
         map backoff [Suc (Suc attempt)..<Suc (Suc attempt + k)])"
    using Suc.prems(1) rest by (intro Suc.IH) auto
  finally show ?case
    by (simp add: upt_conv_Cons del: upt_Suc)
qed

lemma retry_loop_shape:
  "attempt < MAX_RETRIES \<Longrightarrow>
   \<exists>m. 1 \<le> m \<and> attempt + m \<le> MAX_RETRIES \<and>
       calls (retry_loop gen request attempt n slept) = n + m \<and>
       delays (retry_loop gen request attempt n slept) =
         slept @ map backoff [Suc attempt..<attempt + m]"
proof (induction gen request attempt n slept rule: retry_loop.induct)
  case (1 gen request attempt n slept)
  show ?case
  proof (cases "rateLimited gen request n \<and> Suc attempt < MAX_RETRIES")
    case True
    then have eq: "retry_loop gen request attempt n slept =
        retry_loop gen request (Suc attempt) (Suc n) (slept @ [backoff (Suc attempt)])"
      using "1.prems" by (intro retry_loop_unfold_rate) auto
    from True obtain error where e: "gen request n = Inl error" "isRateLimit error"
      by (auto simp: rateLimited_iff)
    have "\<exists>m. 1 \<le> m \<and> Suc attempt + m \<le> MAX_RETRIES \<and>
       calls (retry_loop gen request (Suc attempt) (Suc n)
                (slept @ [INITIAL_DELAY_MS * 2 ^ (Suc attempt - 1)])) = Suc n + m \<and>
       delays (retry_loop gen request (Suc attempt) (Suc n)
                (slept @ [INITIAL_DELAY_MS * 2 ^ (Suc attempt - 1)])) =
         (slept @ [INITIAL_DELAY_MS * 2 ^ (Suc attempt - 1)]) @
         map backoff [Suc (Suc attempt)..<Suc attempt + m]"
      using "1.prems" e True by (intro "1.IH") auto
    then obtain m where m: "1 \<le> m" "Suc attempt + m \<le> MAX_RETRIES"
      "calls (retry_loop gen request (Suc attempt) (Suc n) (slept @ [backoff (Suc attempt)])) =
         Suc n + m"
      "delays (retry_loop gen request (Suc attempt) (Suc n) (slept @ [backoff (Suc attempt)])) =
         (slept @ [backoff (Suc attempt)]) @ map backoff [Suc (Suc attempt)..<Suc attempt + m]"
      by (auto simp: backoff_def simp del: upt_Suc)
    show ?thesis
      using m eq by (intro exI [of _ "Suc m"]) (simp add: upt_conv_Cons del: upt_Suc)
  next
    case False
    then have "calls (retry_loop gen request attempt n slept) = Suc n \<and>
               delays (retry_loop gen request attempt n slept) = slept"
      using "1.prems"
      by (subst (1 2) retry_loop.simps) (auto simp: rateLimited_def split: sum.splits)
    then show ?thesis
      using "1.prems" by (intro exI [of _ 1]) auto
  qed
qed

lemma retry_loop_success:
  assumes "attempt < MAX_RETRIES" "gen request n = Inr response"
  shows "retry_loop gen request attempt n slept =
         \<lparr>outcome = Inr response, calls = Suc n, delays = slept\<rparr>"
  using assms by (subst retry_loop.simps) simp

lemma retry_loop_other_error:
  assumes "attempt < MAX_RETRIES" "gen request n = Inl error" "\<not> isRateLimit error"
  shows "retry_loop gen request attempt n slept =
         \<lparr>outcome = Inl error, calls = Suc n, delays = slept\<rparr>"
  using assms by (subst retry_loop.simps) simp

lemma retry_loop_last_rate_limit:
  assumes "Suc attempt = MAX_RETRIES" "gen request n = Inl error" "isRateLimit error"
  shows "retry_loop gen request attempt n slept =
         \<lparr>outcome = Inl error, calls = Suc n, delays = slept\<rparr>"
  using assms by (subst retry_loop.simps) auto

text \<open>
  Claim C1. For every request, \<open>generateContentWithRetry\<close> returns the result of the
  first call of \<open>generateContent\<close> that succeeds (the calls before it having failed with
  rate-limit errors, fewer than \<open>MAX_RETRIES\<close> of them); an error whose string form
  contains neither \<open>429\<close> nor \<open>RESOURCE_EXHAUSTED\<close> is rethrown at once, with no further
  call; and when every call fails with a rate-limit error, exactly \<open>MAX_RETRIES = 3\<close>
  calls are made and the last rate-limit error is rethrown. Here \<open>n\<close> calls were made
  before the wrapper started, and \<open>k\<close> is the number of rate-limited calls that come
  first.
\<close>

theorem generateContentWithRetry_result:
  "(k < MAX_RETRIES \<and> (\<forall>i<k. \<exists>e. gen request (n + i) = Inl e \<and> isRateLimit e) \<and>
      gen request (n + k) = Inr response
    \<longrightarrow> outcome (generateContentWithRetry gen request n) = Inr response \<and>
        calls (generateContentWithRetry gen request n) = n + k + 1) \<and>
   (k < MAX_RETRIES \<and> (\<forall>i<k. \<exists>e. gen request (n + i) = Inl e \<and> isRateLimit e) \<and>
      gen request (n + k) = Inl error \<and> \<not> isRateLimit error
    \<longrightarrow> outcome (generateContentWithRetry gen request n) = Inl error \<and>
        calls (generateContentWithRetry gen request n) = n + k + 1) \<and>
   ((\<forall>i<MAX_RETRIES. \<exists>e. gen request (n + i) = Inl e \<and> isRateLimit e)
    \<longrightarrow> outcome (generateContentWithRetry gen request n) = gen request (n + MAX_RETRIES - 1) \<and>
        calls (generateContentWithRetry gen request n) = n + MAX_RETRIES) \<and>
   MAX_RETRIES = 3"
proof (intro conjI impI)
  assume h: "k < MAX_RETRIES \<and> (\<forall>i<k. \<exists>e. gen request (n + i) = Inl e \<and> isRateLimit e) \<and>
      gen request (n + k) = Inr response"
  then have "generateContentWithRetry gen request n =
      retry_loop gen request (0 + k) (n + k) ([] @ map backoff [Suc 0..<Suc (0 + k)])"
    unfolding generateContentWithRetry_def
    by (intro retry_loop_skip) (auto simp: rateLimited_iff)
  also have "\<dots> = \<lparr>outcome = Inr response, calls = Suc (n + k),
                     delays = [] @ map backoff [Suc 0..<Suc (0 + k)]\<rparr>"
    using h by (intro retry_loop_success) auto
  finally show "outcome (generateContentWithRetry gen request n) = Inr response"
    and "calls (generateContentWithRetry gen request n) = n + k + 1"
    by simp_all
next
  assume h: "k < MAX_RETRIES \<and> (\<forall>i<k. \<exists>e. gen request (n + i) = Inl e \<and> isRateLimit e) \<and>
      gen request (n + k) = Inl error \<and> \<not> isRateLimit error"
  then have "generateContentWithRetry gen request n =
      retry_loop gen request (0 + k) (n + k) ([] @ map backoff [Suc 0..<Suc (0 + k)])"
    unfolding generateContentWithRetry_def
    by (intro retry_loop_skip) (auto simp: rateLimited_iff)
  also have "\<dots> = \<lparr>outcome = Inl error, calls = Suc (n + k),
                     delays = [] @ map backoff [Suc 0..<Suc (0 + k)]\<rparr>"
    using h by (intro retry_loop_other_error) auto
  finally show "outcome (generateContentWithRetry gen request n) = Inl error"
    and "calls (generateContentWithRetry gen request n) = n + k + 1"
    by simp_all
next
  assume h: "\<forall>i<MAX_RETRIES. \<exists>e. gen request (n + i) = Inl e \<and> isRateLimit e"
  define j where "j = MAX_RETRIES - 1"
  have j: "Suc j = MAX_RETRIES" by (simp add: j_def MAX_RETRIES_def)
  from h j obtain e where e: "gen request (n + j) = Inl e" "isRateLimit e"
    by (metis lessI)
  have "generateContentWithRetry gen request n =
      retry_loop gen request (0 + j) (n + j) ([] @ map backoff [Suc 0..<Suc (0 + j)])"
    unfolding generateContentWithRetry_def
    using h j by (intro retry_loop_skip) (auto simp: rateLimited_iff)
  also have "\<dots> = \<lparr>outcome = Inl e, calls = Suc (n + j),
                     delays = [] @ map backoff [Suc 0..<Suc (0 + j)]\<rparr>"
    using e j by (intro retry_loop_last_rate_limit) auto
  finally have run: "generateContentWithRetry gen request n =
      \<lparr>outcome = Inl e, calls = Suc (n + j), delays = [] @ map backoff [Suc 0..<Suc (0 + j)]\<rparr>" .
  have nj: "n + MAX_RETRIES - 1 = n + j" using j by simp
  show "outcome (generateContentWithRetry gen request n) = gen request (n + MAX_RETRIES - 1)"
    unfolding nj using run e by simp
  show "calls (generateContentWithRetry gen request n) = n + MAX_RETRIES"
    using run j by simp
next
  show "MAX_RETRIES = 3" by (simp add: MAX_RETRIES_def)
qed

text \<open>
  Three runs: two rate-limit errors and then a response; one rate-limit error and then
  a network error; rate-limit errors only.
\<close>

theorem generateContentWithRetry_result_witness:
  "outcome (generateContentWithRetry (\<lambda>request n. if n < 2 then Inl (JsError (js ''ApiError'') (js ''got status: 429'')) else Inr (7::nat)) () 0) = Inr 7 \<and>
   calls (generateContentWithRetry (\<lambda>request n. if n < 2 then Inl (JsError (js ''ApiError'') (js ''got status: 429'')) else Inr (7::nat)) () 0) = 3 \<and>
   outcome (generateContentWithRetry (\<lambda>request n. if n < 1 then Inl (JsError (js ''ApiError'') (js ''RESOURCE_EXHAUSTED'')) else (Inl (JsError (js ''TypeError'') (js ''Failed to fetch'')) :: js_error + nat)) () 0)
     = Inl (JsError (js ''TypeError'') (js ''Failed to fetch'')) \<and>
   calls (generateContentWithRetry (\<lambda>request n. if n < 1 then Inl (JsError (js ''ApiError'') (js ''RESOURCE_EXHAUSTED'')) else (Inl (JsError (js ''TypeError'') (js ''Failed to fetch'')) :: js_error + nat)) () 0) = 2 \<and>
   outcome (generateContentWithRetry (\<lambda>request n. (Inl (JsError (js ''ApiError'') (js ''429'')) :: js_error + nat)) () 0)
     = Inl (JsError (js ''ApiError'') (js ''429'')) \<and>
   calls (generateContentWithRetry (\<lambda>request n. (Inl (JsError (js ''ApiError'') (js ''429'')) :: js_error + nat)) () 0) = 3"
proof -
  let ?e1 = "JsError (js ''ApiError'') (js ''got status: 429'')"
  let ?e2 = "JsError (js ''ApiError'') (js ''RESOURCE_EXHAUSTED'')"
  let ?e3 = "JsError (js ''ApiError'') (js ''429'')"
  let ?e4 = "JsError (js ''TypeError'') (js ''Failed to fetch'')"
  let ?g1 = "\<lambda>(request::unit) n::nat. if n < 2 then Inl ?e1 else Inr (7::nat)"
  let ?g2 = "\<lambda>(request::unit) n::nat. if n < 1 then Inl ?e2 else (Inl ?e4 :: js_error + nat)"
  let ?g3 = "\<lambda>(request::unit) n::nat. (Inl ?e3 :: js_error + nat)"
  have r1: "isRateLimit ?e1"
    by (simp add: isRateLimit_def errorString_def js_def)
  have r2: "isRateLimit ?e2"
    by (simp add: isRateLimit_def errorString_def js_def)
  have r3: "isRateLimit ?e3"
    by (simp add: isRateLimit_def errorString_def js_def)
  have r4: "\<not> isRateLimit ?e4"
    by (simp add: isRateLimit_def errorString_def js_def)
  have h1: "2 < MAX_RETRIES \<and> (\<forall>i<2. \<exists>e. ?g1 () (0 + i) = Inl e \<and> isRateLimit e) \<and>
            ?g1 () (0 + 2) = Inr 7"
    using r1 by (simp add: MAX_RETRIES_def)
  have h2: "1 < MAX_RETRIES \<and> (\<forall>i<1. \<exists>e. ?g2 () (0 + i) = Inl e \<and> isRateLimit e) \<and>
            ?g2 () (0 + 1) = Inl ?e4 \<and> \<not> isRateLimit ?e4"
    using r2 r4 by (simp add: MAX_RETRIES_def)
  have h3: "\<forall>i<MAX_RETRIES. \<exists>e. ?g3 () (0 + i) = Inl e \<and> isRateLimit e"
    using r3 by simp
  have c1: "outcome (generateContentWithRetry ?g1 () 0) = Inr 7 \<and>
            calls (generateContentWithRetry ?g1 () 0) = 3"
    using generateContentWithRetry_result [of 2 ?g1 "()" 0 7] h1 by simp
  have c2: "outcome (generateContentWithRetry ?g2 () 0) = Inl ?e4 \<and>
            calls (generateContentWithRetry ?g2 () 0) = 2"
    using generateContentWithRetry_result [of 1 ?g2 "()" 0 _ ?e4] h2 by simp
  have c3: "outcome (generateContentWithRetry ?g3 () 0) = Inl ?e3 \<and>
            calls (generateContentWithRetry ?g3 () 0) = 3"
    using generateContentWithRetry_result [of _ ?g3 "()" 0] h3 by (simp add: MAX_RETRIES_def)
  show ?thesis
    using c1 c2 c3 by blast
qed

text \<open>
  Claim C2. A call that fails with a rate-limit error is followed by a sleep and another
  call, as long as fewer than \<open>MAX_RETRIES = 3\<close> calls have been made, and the delay
  slept before the \<open>k\<close>-th retry is \<open>INITIAL_DELAY_MS * 2 ^ (k - 1)\<close> milliseconds:
  when the first \<open>k < MAX_RETRIES\<close> calls are rate-limited and the next one is not,
  the delays slept are those for the retries 1 to \<open>k\<close> and \<open>k + 1\<close> calls are made;
  when every call is rate-limited, the delays are 1000 and 2000 and exactly
  \<open>MAX_RETRIES\<close> calls are made. In every run the delays are a prefix of 1000, 2000,
  one before each call after the first, and at most \<open>MAX_RETRIES\<close> calls are made.
\<close>

theorem generateContentWithRetry_backoff:
  "(k < MAX_RETRIES \<and> (\<forall>i<k. \<exists>e. gen request (n + i) = Inl e \<and> isRateLimit e) \<and>
      \<not> (\<exists>e. gen request (n + k) = Inl e \<and> isRateLimit e)
    \<longrightarrow> delays (generateContentWithRetry gen request n) =
          map (\<lambda>j. INITIAL_DELAY_MS * 2 ^ (j - 1)) [1..<Suc k] \<and>
        calls (generateContentWithRetry gen request n) = n + k + 1) \<and>
   ((\<forall>i<MAX_RETRIES. \<exists>e. gen request (n + i) = Inl e \<and> isRateLimit e)
    \<longrightarrow> delays (generateContentWithRetry gen request n) =
          map (\<lambda>j. INITIAL_DELAY_MS * 2 ^ (j - 1)) [1..<MAX_RETRIES] \<and>
        delays (generateContentWithRetry gen request n) = [1000, 2000] \<and>
        calls (generateContentWithRetry gen request n) = n + MAX_RETRIES) \<and>
   MAX_RETRIES = 3 \<and> INITIAL_DELAY_MS = 1000 \<and>
   n < calls (generateContentWithRetry gen request n) \<and>
   calls (generateContentWithRetry gen request n) - n \<le> MAX_RETRIES \<and>
   delays (generateContentWithRetry gen request n) =
     map (\<lambda>k. INITIAL_DELAY_MS * 2 ^ (k - 1)) [1..<calls (generateContentWithRetry gen request n) - n] \<and>
   delays (generateContentWithRetry gen request n) =
     take (calls (generateContentWithRetry gen request n) - n - 1) [1000, 2000]"
proof -
  have bo: "map backoff [Suc 0..<m] = map (\<lambda>k. INITIAL_DELAY_MS * 2 ^ (k - 1)) [1..<m]" for m
    by (simp add: backoff_def)
  have first: "delays (generateContentWithRetry gen request n) =
          map (\<lambda>j. INITIAL_DELAY_MS * 2 ^ (j - 1)) [1..<Suc k] \<and>
        calls (generateContentWithRetry gen request n) = n + k + 1"
    if h: "k < MAX_RETRIES \<and> (\<forall>i<k. \<exists>e. gen request (n + i) = Inl e \<and> isRateLimit e) \<and>
      \<not> (\<exists>e. gen request (n + k) = Inl e \<and> isRateLimit e)"
  proof -
    have skip: "generateContentWithRetry gen request n =
        retry_loop gen request (0 + k) (n + k) ([] @ map backoff [Suc 0..<Suc (0 + k)])"
      unfolding generateContentWithRetry_def
      using h by (intro retry_loop_skip) (auto simp: rateLimited_iff)
    have "retry_loop gen request (0 + k) (n + k) ([] @ map backoff [Suc 0..<Suc (0 + k)]) =
        \<lparr>outcome = gen request (n + k), calls = Suc (n + k),
         delays = [] @ map backoff [Suc 0..<Suc (0 + k)]\<rparr>"
    proof (cases "gen request (n + k)")
      case (Inl error)
      then have "\<not> isRateLimit error" using h by simp
      then show ?thesis
        using h Inl by (simp add: retry_loop_other_error)
    next
      case (Inr response)
      then show ?thesis
        using h by (simp add: retry_loop_success)
    qed
    then show ?thesis
      using skip bo [of "Suc k"] by simp
  qed
  have all: "delays (generateContentWithRetry gen request n) =
          map (\<lambda>j. INITIAL_DELAY_MS * 2 ^ (j - 1)) [1..<MAX_RETRIES] \<and>
        delays (generateContentWithRetry gen request n) = [1000, 2000] \<and>
        calls (generateContentWithRetry gen request n) = n + MAX_RETRIES"
    if h: "\<forall>i<MAX_RETRIES. \<exists>e. gen request (n + i) = Inl e \<and> isRateLimit e"
  proof -
    define j where "j = MAX_RETRIES - 1"
    have j: "Suc j = MAX_RETRIES" "j = 2"
      by (simp_all add: j_def MAX_RETRIES_def)
    from h j obtain e where e: "gen request (n + j) = Inl e" "isRateLimit e"
      by (metis lessI)
    have "generateContentWithRetry gen request n =
        retry_loop gen request (0 + j) (n + j) ([] @ map backoff [Suc 0..<Suc (0 + j)])"
      unfolding generateContentWithRetry_def
      using h j(1) by (intro retry_loop_skip) (auto simp: rateLimited_iff)
    also have "\<dots> = \<lparr>outcome = Inl e, calls = Suc (n + j),
                       delays = [] @ map backoff [Suc 0..<Suc (0 + j)]\<rparr>"
      using e j(1) by (intro retry_loop_last_rate_limit) auto
    finally have run: "generateContentWithRetry gen request n =
        \<lparr>outcome = Inl e, calls = Suc (n + j), delays = map backoff [Suc 0..<Suc j]\<rparr>"
      by simp
    have two: "map backoff [Suc 0..<Suc j] = [1000, 2000]"
      unfolding j(2) by (simp add: backoff_def INITIAL_DELAY_MS_def upt_conv_Cons)
    have d: "delays (generateContentWithRetry gen request n) = map backoff [Suc 0..<MAX_RETRIES]"
      "calls (generateContentWithRetry gen request n) = n + MAX_RETRIES"
      using run j(1) by simp_all
    have "map backoff [Suc 0..<MAX_RETRIES] = [1000, 2000]"
      using two j(1) by simp
    then show ?thesis
      using d bo [of MAX_RETRIES] by simp
  qed
  obtain m where m: "1 \<le> m" "m \<le> MAX_RETRIES"
    "calls (generateContentWithRetry gen request n) = n + m"
    "delays (generateContentWithRetry gen request n) = map backoff [Suc 0..<m]"
    using retry_loop_shape [of 0 gen request n "[]"]
    by (auto simp: generateContentWithRetry_def MAX_RETRIES_def)
  have "m = 1 \<or> m = 2 \<or> m = 3"
    using m(1,2) by (auto simp: MAX_RETRIES_def)
  then have tk: "map backoff [Suc 0..<m] = take (m - 1) [1000, 2000]"
    by (auto simp: backoff_def INITIAL_DELAY_MS_def upt_conv_Cons)
  have rest: "MAX_RETRIES = 3 \<and> INITIAL_DELAY_MS = 1000 \<and>
   n < calls (generateContentWithRetry gen request n) \<and>
   calls (generateContentWithRetry gen request n) - n \<le> MAX_RETRIES \<and>
   delays (generateContentWithRetry gen request n) =
     map (\<lambda>k. INITIAL_DELAY_MS * 2 ^ (k - 1)) [1..<calls (generateContentWithRetry gen request n) - n] \<and>
   delays (generateContentWithRetry gen request n) =
     take (calls (generateContentWithRetry gen request n) - n - 1) [1000, 2000]"
    using m bo [of m] tk by (simp add: MAX_RETRIES_def INITIAL_DELAY_MS_def)
  show ?thesis
    using first all rest by blast
qed

text \<open>
  One rate-limit error and then a response; two rate-limit errors and then a network
  error; rate-limit errors only, after five earlier calls.
\<close>

theorem generateContentWithRetry_backoff_witness:
  "delays (generateContentWithRetry
      (\<lambda>request n. if n < 1 then Inl (JsError (js ''ApiError'') (js ''got status: 429''))
                    else Inr (7::nat)) () 0) = [1000] \<and>
   calls (generateContentWithRetry
      (\<lambda>request n. if n < 1 then Inl (JsError (js ''ApiError'') (js ''got status: 429''))
                    else Inr (7::nat)) () 0) = 2 \<and>
   delays (generateContentWithRetry
      (\<lambda>request n. if n < 2 then Inl (JsError (js ''ApiError'') (js ''RESOURCE_EXHAUSTED''))
                    else (Inl (JsError (js ''TypeError'') (js ''Failed to fetch'')) :: js_error + nat))
      () 0) = [1000, 2000] \<and>
   calls (generateContentWithRetry
      (\<lambda>request n. if n < 2 then Inl (JsError (js ''ApiError'') (js ''RESOURCE_EXHAUSTED''))
                    else (Inl (JsError (js ''TypeError'') (js ''Failed to fetch'')) :: js_error + nat))
      () 0) = 3 \<and>
   delays (generateContentWithRetry
      (\<lambda>request n. (Inl (JsError (js ''ApiError'') (js ''429'')) :: js_error + nat)) () 5)
     = [1000, 2000] \<and>
   calls (generateContentWithRetry
      (\<lambda>request n. (Inl (JsError (js ''ApiError'') (js ''429'')) :: js_error + nat)) () 5) = 8"
proof -
  let ?e1 = "JsError (js ''ApiError'') (js ''got status: 429'')"
  let ?e2 = "JsError (js ''ApiError'') (js ''RESOURCE_EXHAUSTED'')"
  let ?e3 = "JsError (js ''ApiError'') (js ''429'')"
  let ?e4 = "JsError (js ''TypeError'') (js ''Failed to fetch'')"
  let ?g1 = "\<lambda>(request::unit) n::nat. if n < 1 then Inl ?e1 else Inr (7::nat)"
  let ?g2 = "\<lambda>(request::unit) n::nat. if n < 2 then Inl ?e2 else (Inl ?e4 :: js_error + nat)"
  let ?g3 = "\<lambda>(request::unit) n::nat. (Inl ?e3 :: js_error + nat)"
  have r1: "isRateLimit ?e1"
    by (simp add: isRateLimit_def errorString_def js_def)
  have r2: "isRateLimit ?e2"
    by (simp add: isRateLimit_def errorString_def js_def)
  have r3: "isRateLimit ?e3"
    by (simp add: isRateLimit_def errorString_def js_def)
  have r4: "\<not> isRateLimit ?e4"
    by (simp add: isRateLimit_def errorString_def js_def)
  have d1: "map (\<lambda>j. INITIAL_DELAY_MS * 2 ^ (j - 1)) [1..<Suc 1] = [1000]"
    by (simp add: INITIAL_DELAY_MS_def)
  have d2: "map (\<lambda>j. INITIAL_DELAY_MS * 2 ^ (j - 1)) [1..<Suc 2] = [1000, 2000]"
    by (simp add: INITIAL_DELAY_MS_def upt_conv_Cons)
  have h1: "1 < MAX_RETRIES \<and> (\<forall>i<1. \<exists>e. ?g1 () (0 + i) = Inl e \<and> isRateLimit e) \<and>
            \<not> (\<exists>e. ?g1 () (0 + 1) = Inl e \<and> isRateLimit e)"
    using r1 by (simp add: MAX_RETRIES_def)
  have h2: "2 < MAX_RETRIES \<and> (\<forall>i<2. \<exists>e. ?g2 () (0 + i) = Inl e \<and> isRateLimit e) \<and>
            \<not> (\<exists>e. ?g2 () (0 + 2) = Inl e \<and> isRateLimit e)"
    using r2 r4 by (simp add: MAX_RETRIES_def)
  have h3: "\<forall>i<MAX_RETRIES. \<exists>e. ?g3 () (5 + i) = Inl e \<and> isRateLimit e"
    using r3 by simp
  have c1: "delays (generateContentWithRetry ?g1 () 0) = [1000] \<and>
            calls (generateContentWithRetry ?g1 () 0) = 2"
    using generateContentWithRetry_backoff [of 1 ?g1 "()" 0, THEN conjunct1, THEN mp, OF h1]
    by (simp only: d1) simp
  have c2: "delays (generateContentWithRetry ?g2 () 0) = [1000, 2000] \<and>
            calls (generateContentWithRetry ?g2 () 0) = 3"
    using generateContentWithRetry_backoff [of 2 ?g2 "()" 0, THEN conjunct1, THEN mp, OF h2]
    by (simp only: d2) simp
  note all3 = generateContentWithRetry_backoff [of _ ?g3 "()" 5, THEN conjunct2, THEN conjunct1,
        THEN mp, OF h3]
  have c3d: "delays (generateContentWithRetry ?g3 () 5) = [1000, 2000]"
    using all3 by blast
  have "calls (generateContentWithRetry ?g3 () 5) = 5 + MAX_RETRIES"
    using all3 by blast
  then have c3: "delays (generateContentWithRetry ?g3 () 5) = [1000, 2000] \<and>
            calls (generateContentWithRetry ?g3 () 5) = 8"
    using c3d by (simp add: MAX_RETRIES_def)
  show ?thesis
    using c1 c2 c3 by blast
qed

section \<open>Properties of the app\<close>

lemma reachable_selected:
  "reachable s \<Longrightarrow>
   (interviewState s = Role_select \<longrightarrow> selectedLanguage s \<noteq> None) \<and>
   (interviewState s = Level_select \<longrightarrow> selectedLanguage s \<noteq> None \<and> selectedRole s \<noteq> None) \<and>
   (interviewState s = In_progress \<longrightarrow>
      selectedLanguage s \<noteq> None \<and> selectedRole s \<noteq> None \<and> selectedLevel s \<noteq> None)"
proof (induction rule: reachable.induct)
  case start
  show ?case by (simp add: App_initial_def)
next
  case (render s)
  then show ?case
    by (cases "interviewState s")
       (auto simp: renderContent_def split: option.splits)
next
  case (call s e h)
  obtain scr where scr: "fst (renderContent s) = scr" by simp
  from call.hyps(2) call.IH show ?case
    unfolding scr [symmetric]
    by (cases "interviewState s"; cases e)
       (auto simp: renderContent_def handleGetStarted_def handleLanguageSelect_def
          handleRoleSelect_def handleLevelSelect_def handleInterviewEnd_def handleRestart_def
          split: option.splits)
qed

lemma handler_next_step:
  assumes "handler (fst (renderContent s)) e = Some h" "e \<noteq> Cancel" "e \<noteq> Restart"
  shows "next_step (interviewState s) = Some (interviewState (h s))"
  using assms
  by (cases "interviewState s"; cases e)
     (auto simp: renderContent_def handleGetStarted_def handleLanguageSelect_def
        handleRoleSelect_def handleLevelSelect_def handleInterviewEnd_def
        split: option.splits)

text \<open>
  Claim C7. The app visits the steps in the order welcome, language-select, role-select,
  level-select, in-progress, feedback. In every state the app can reach: a call that the
  rendered screen can make, other than a cancel or restart, moves the state to exactly
  the next step; each screen is given the handler of its own step only; each selection
  handler stores the chosen language, role or level; and when the state is in-progress
  a language, a role and a level have all been selected.
\<close>

theorem App_selection_order:
  "reachable s \<Longrightarrow>
   (interviewState s = In_progress \<longrightarrow>
      selectedLanguage s \<noteq> None \<and> selectedRole s \<noteq> None \<and> selectedLevel s \<noteq> None) \<and>
   (\<forall>e h. handler (fst (renderContent s)) e = Some h \<and> e \<noteq> Cancel \<and> e \<noteq> Restart \<longrightarrow>
      next_step (interviewState s) = Some (interviewState (h s))) \<and>
   handler (fst (renderContent s)) GetStarted = (if interviewState s = Welcome then Some handleGetStarted else None) \<and>
   handler (fst (renderContent s)) (SelectLanguage languageCode) =
     (if interviewState s = Language_select then Some (handleLanguageSelect languageCode) else None) \<and>
   handler (fst (renderContent s)) (SelectRole role) =
     (if interviewState s = Role_select then Some (handleRoleSelect role) else None) \<and>
   handler (fst (renderContent s)) (SelectLevel level) =
     (if interviewState s = Level_select then Some (handleLevelSelect level) else None) \<and>
   handler (fst (renderContent s)) (InterviewEnd transcript fb) =
     (if interviewState s = In_progress then Some (handleInterviewEnd transcript fb) else None) \<and>
   interviewState (handleGetStarted s) = Language_select \<and>
   selectedLanguage (handleLanguageSelect languageCode s) = Some languageCode \<and>
   interviewState (handleLanguageSelect languageCode s) = Role_select \<and>
   selectedRole (handleRoleSelect role s) = Some role \<and>
   interviewState (handleRoleSelect role s) = Level_select \<and>
   selectedLevel (handleLevelSelect level s) = Some level \<and>
   interviewState (handleLevelSelect level s) = In_progress \<and>
   interviewState (handleInterviewEnd transcript fb s) = Feedback"
proof -
  assume r: "reachable s"
  have sel: "interviewState s = In_progress \<longrightarrow>
      selectedLanguage s \<noteq> None \<and> selectedRole s \<noteq> None \<and> selectedLevel s \<noteq> None"
    using reachable_selected [OF r] by blast
  have offered: "handler (fst (renderContent s)) GetStarted = (if interviewState s = Welcome then Some handleGetStarted else None)"
    "handler (fst (renderContent s)) (SelectLanguage languageCode) =
     (if interviewState s = Language_select then Some (handleLanguageSelect languageCode) else None)"
    "handler (fst (renderContent s)) (SelectRole role) =
     (if interviewState s = Role_select then Some (handleRoleSelect role) else None)"
    "handler (fst (renderContent s)) (SelectLevel level) =
     (if interviewState s = Level_select then Some (handleLevelSelect level) else None)"
    "handler (fst (renderContent s)) (InterviewEnd transcript fb) =
     (if interviewState s = In_progress then Some (handleInterviewEnd transcript fb) else None)"
    using sel by (cases "interviewState s"; auto simp: renderContent_def split: option.splits)+
  have nxt: "\<forall>e h. handler (fst (renderContent s)) e = Some h \<and> e \<noteq> Cancel \<and> e \<noteq> Restart \<longrightarrow>
      next_step (interviewState s) = Some (interviewState (h s))"
    using handler_next_step [of s] by blast
  show ?thesis
    using sel offered nxt
    by (simp add: handleGetStarted_def handleLanguageSelect_def
        handleRoleSelect_def handleLevelSelect_def handleInterviewEnd_def)
qed

text \<open>The state after a language, a role and a level have been chosen in turn.\<close>

theorem App_selection_order_witness:
  "reachable (handleLevelSelect Senior (handleRoleSelect QA_Tester
      (handleLanguageSelect en_US (handleGetStarted App_initial)))) \<and>
   interviewState (handleLevelSelect Senior (handleRoleSelect QA_Tester
      (handleLanguageSelect en_US (handleGetStarted App_initial)))) = In_progress \<and>
   selectedLanguage (handleLevelSelect Senior (handleRoleSelect QA_Tester
      (handleLanguageSelect en_US (handleGetStarted App_initial)))) \<noteq> None \<and>
   selectedRole (handleLevelSelect Senior (handleRoleSelect QA_Tester
      (handleLanguageSelect en_US (handleGetStarted App_initial)))) \<noteq> None \<and>
   selectedLevel (handleLevelSelect Senior (handleRoleSelect QA_Tester
      (handleLanguageSelect en_US (handleGetStarted App_initial)))) \<noteq> None"
proof -
  let ?s1 = "handleGetStarted App_initial"
  let ?s2 = "handleLanguageSelect en_US ?s1"
  let ?s3 = "handleRoleSelect QA_Tester ?s2"
  let ?s4 = "handleLevelSelect Senior ?s3"
  have r1: "reachable ?s1"
    by (rule reachable.call [OF reachable.start, of GetStarted])
       (simp add: renderContent_def App_initial_def)
  have r2: "reachable ?s2"
    by (rule reachable.call [OF r1, of "SelectLanguage en_US"])
       (simp add: renderContent_def App_initial_def handleGetStarted_def)
  have r3: "reachable ?s3"
    by (rule reachable.call [OF r2, of "SelectRole QA_Tester"])
       (simp add: renderContent_def App_initial_def handleGetStarted_def handleLanguageSelect_def)
  have r4: "reachable ?s4"
    by (rule reachable.call [OF r3, of "SelectLevel Senior"])
       (simp add: renderContent_def App_initial_def handleGetStarted_def handleLanguageSelect_def
          handleRoleSelect_def)
  have st: "interviewState ?s4 = In_progress"
    by (simp add: handleLevelSelect_def)
  show ?thesis
    using App_selection_order [OF r4] r4 st by blast
qed

text \<open>
  Claim C10. \<open>handleRestart\<close> resets the whole state of the app, whatever state it is
  called in: the selected language, role and level and the feedback are null, the
  final transcript is empty and the state is welcome.
\<close>

theorem handleRestart_resets:
  "handleRestart s = App_initial \<and>
   selectedLanguage (handleRestart s) = None \<and> selectedRole (handleRestart s) = None \<and>
   selectedLevel (handleRestart s) = None \<and> feedback (handleRestart s) = None \<and>
   finalTranscript (handleRestart s) = [] \<and> interviewState (handleRestart s) = Welcome"
  by (simp add: handleRestart_def App_initial_def)

section \<open>Properties of the audio decoding\<close>

lemma fold_update_length:
  "length (fold (\<lambda>i xs. xs[i := f i]) is xs) = length xs"
  by (induction "is" arbitrary: xs) auto

lemma fold_update_nth:
  "i < length xs \<Longrightarrow>
   fold (\<lambda>i xs. xs[i := f i]) [0..<n] xs ! i = (if i < n then f i else xs ! i)"
proof (induction n)
  case 0
  show ?case by simp
next
  case (Suc n)
  then show ?case
    by (auto simp: fold_update_length nth_list_update less_Suc_eq)
qed

lemma decode_bytes:
  assumes "atob base64 = Inr binaryString"
  shows "\<exists>bytes. decode atob base64 = Inr bytes \<and> length bytes = length binaryString \<and>
           (\<forall>i<length binaryString. bytes ! i = ucast (binaryString ! i))"
  using assms by (simp add: decode_def Let_def fold_update_length fold_update_nth)

lemma length_Int16Array: "length (Int16Array data) = length data div 2"
  by (induction data rule: Int16Array.induct) auto

lemma length_fill_channel:
  "length (fill_channel dataInt16 numChannels channel frameCount cd) = length cd"
  by (simp add: fill_channel_def fold_update_length)

lemma fill_channel_nth:
  "i < length cd \<Longrightarrow> i < frameCount \<Longrightarrow>
   fill_channel dataInt16 numChannels channel frameCount cd ! i =
     sample_at dataInt16 (i * numChannels + channel)"
  by (simp add: fill_channel_def fold_update_nth)

lemma fill_channels_result:
  assumes "distinct cs" "\<forall>c\<in>set cs. c < length (channels buffer)"
  shows "\<exists>buffer'. fill_channels dataInt16 numChannels frameCount cs buffer = Inr buffer' \<and>
           buffer_sampleRate buffer' = buffer_sampleRate buffer \<and>
           length (channels buffer') = length (channels buffer) \<and>
           (\<forall>c<length (channels buffer). channels buffer' ! c =
              (if c \<in> set cs
               then fill_channel dataInt16 numChannels c frameCount (channels buffer ! c)
               else channels buffer ! c))"
  using assms
proof (induction cs arbitrary: buffer)
  case Nil
  then show ?case by simp
next
  case (Cons channel rest)
  let ?b = "buffer\<lparr>channels := (channels buffer)
             [channel := fill_channel dataInt16 numChannels channel frameCount
                           (channels buffer ! channel)]\<rparr>"
  have ch: "channel < length (channels buffer)" "channel \<notin> set rest" "distinct rest"
    using Cons.prems by auto
  have "\<forall>c\<in>set rest. c < length (channels ?b)"
    using Cons.prems by auto
  from Cons.IH [OF ch(3) this] obtain buffer' where
    b': "fill_channels dataInt16 numChannels frameCount rest ?b = Inr buffer'"
      "buffer_sampleRate buffer' = buffer_sampleRate ?b"
      "length (channels buffer') = length (channels ?b)"
      "\<forall>c<length (channels ?b). channels buffer' ! c =
              (if c \<in> set rest
               then fill_channel dataInt16 numChannels c frameCount (channels ?b ! c)
               else channels ?b ! c)"
    by blast
  have "fill_channels dataInt16 numChannels frameCount (channel # rest) buffer = Inr buffer'"
    using ch(1) b'(1) by simp
  moreover have "\<forall>c<length (channels buffer). channels buffer' ! c =
              (if c \<in> set (channel # rest)
               then fill_channel dataInt16 numChannels c frameCount (channels buffer ! c)
               else channels buffer ! c)"
    using b'(4) ch by (auto simp: nth_list_update)
  ultimately show ?case
    using b'(2,3) by simp
qed

lemma sample_range:
  fixes w :: "16 word"
  shows "- 1 \<le> real_of_int (sint w) / 32768 \<and> real_of_int (sint w) / 32768 < 1"
proof -
  have "- 32768 \<le> sint w" "sint w < 32768"
    using sint_ge [of w] sint_lt [of w] by simp_all
  then have "real_of_int (- 32768) \<le> real_of_int (sint w)" "real_of_int (sint w) < real_of_int 32768"
    by (simp_all only: of_int_le_iff of_int_less_iff)
  then show ?thesis by simp
qed


lemma Int16Array_nth:
  "k < length data div 2 \<Longrightarrow>
   Int16Array data ! k = word_cat (data ! (2 * k + 1)) (data ! (2 * k))"
proof (induction data arbitrary: k rule: Int16Array.induct)
  case (1 lo hi rest)
  then show ?case by (cases k) auto
qed auto

lemma decodeAudioData_samples:
  assumes n: "0 < numChannels"
    and len: "length data mod (2 * numChannels) = 0"
    and cb: "createBuffer numChannels (length data div 2 div numChannels) sampleRate = Inr buffer0"
    and shape: "length (channels buffer0) = numChannels"
      "\<forall>cd\<in>set (channels buffer0). length cd = length data div 2 div numChannels"
  shows "\<exists>buffer. decodeAudioData data createBuffer sampleRate numChannels = Inr buffer \<and>
      length (channels buffer) = numChannels \<and>
      (\<forall>c<numChannels. length (channels buffer ! c) = length data div 2 div numChannels \<and>
         (\<forall>i<length data div 2 div numChannels.
            channels buffer ! c ! i =
              Sample (real_of_int (sint (Int16Array data ! (i * numChannels + c))) / 32768)))"
proof -
  let ?fc = "length data div 2 div numChannels"
  let ?d = "Int16Array data"
  have even: "even (length data)"
    using len by (metis dvd_mult_left mod_eq_0_iff_dvd)
  have total: "?fc * numChannels = length ?d"
  proof -
    have "2 * numChannels dvd length data" using len by (simp add: mod_eq_0_iff_dvd)
    then obtain q where q: "length data = 2 * numChannels * q" by (auto simp: dvd_def)
    then show ?thesis using n by (simp add: length_Int16Array)
  qed
  have run: "decodeAudioData data createBuffer sampleRate numChannels =
      fill_channels ?d numChannels ?fc [0..<numChannels] buffer0"
    using even n cb by (simp add: decodeAudioData_def length_Int16Array)
  have "\<forall>c\<in>set [0..<numChannels]. c < length (channels buffer0)"
    using shape(1) by simp
  from fill_channels_result [OF distinct_upt this, of ?d numChannels ?fc]
  obtain buffer where b:
    "fill_channels ?d numChannels ?fc [0..<numChannels] buffer0 = Inr buffer"
    "length (channels buffer) = length (channels buffer0)"
    "\<forall>c<length (channels buffer0). channels buffer ! c =
        (if c \<in> set [0..<numChannels]
         then fill_channel ?d numChannels c ?fc (channels buffer0 ! c)
         else channels buffer0 ! c)"
    by blast
  have "length (channels buffer ! c) = ?fc \<and>
        (\<forall>i<?fc. channels buffer ! c ! i =
              Sample (real_of_int (sint (?d ! (i * numChannels + c))) / 32768))"
    if c: "c < numChannels" for c
  proof -
    have eq: "channels buffer ! c = fill_channel ?d numChannels c ?fc (channels buffer0 ! c)"
      using b(3) c shape(1) by simp
    have l0: "length (channels buffer0 ! c) = ?fc"
      using shape c by (metis nth_mem)
    have "channels buffer ! c ! i = Sample (real_of_int (sint (?d ! (i * numChannels + c))) / 32768)"
      if i: "i < ?fc" for i
    proof -
      have "i * numChannels + c < Suc i * numChannels" using c by simp
      also have "\<dots> \<le> ?fc * numChannels" using i by (intro mult_le_mono1) simp
      finally have "i * numChannels + c < length ?d" using total by simp
      then show ?thesis
        using i l0 by (simp add: eq fill_channel_nth sample_at_def del: of_int_sint)
    qed
    then show ?thesis using l0 by (simp add: eq length_fill_channel)
  qed
  then show ?thesis
    using run b(1,2) shape(1) by auto
qed

text \<open>
  Claim C5. For a byte payload whose length is a multiple of \<open>2 * numChannels\<close>
  (with at least one channel, and an audio context whose \<open>createBuffer\<close> returns a
  buffer of the requested shape), \<open>decodeAudioData\<close> reads the payload as interleaved
  signed 16-bit samples and returns a buffer of \<open>numChannels\<close> channels with
  \<open>(byte length / 2) / numChannels\<close> frames each, in which the sample of channel
  \<open>c\<close> at frame \<open>i\<close> is \<open>dataInt16[i * numChannels + c] / 32768\<close>, a value in
  \<open>[-1, 1)\<close>; \<open>dataInt16[k]\<close> is made of the bytes \<open>2k\<close> (low) and \<open>2k + 1\<close> (high).
  And \<open>decode\<close> returns the bytes whose \<open>i\<close>-th element is the character code of
  the \<open>i\<close>-th character of what \<open>atob\<close> returns (its low eight bits; the code itself
  when it is below 256, as every character that \<open>atob\<close> produces is).
\<close>

theorem audio_decoding:
  "(0 < numChannels \<and> length data mod (2 * numChannels) = 0 \<and>
    createBuffer numChannels (length data div 2 div numChannels) sampleRate = Inr buffer0 \<and>
    length (channels buffer0) = numChannels \<and>
    (\<forall>cd\<in>set (channels buffer0). length cd = length data div 2 div numChannels)
    \<longrightarrow> (\<exists>buffer. decodeAudioData data createBuffer sampleRate numChannels = Inr buffer \<and>
          length (channels buffer) = numChannels \<and>
          (\<forall>c<numChannels. length (channels buffer ! c) = length data div 2 div numChannels \<and>
             (\<forall>i<length data div 2 div numChannels.
                channels buffer ! c ! i =
                  Sample (real_of_int (sint (Int16Array data ! (i * numChannels + c))) / 32768) \<and>
                - 1 \<le> real_of_int (sint (Int16Array data ! (i * numChannels + c))) / 32768 \<and>
                real_of_int (sint (Int16Array data ! (i * numChannels + c))) / 32768 < 1)))) \<and>
   (\<forall>k<length data div 2.
      Int16Array data ! k = word_cat (data ! (2 * k + 1)) (data ! (2 * k))) \<and>
   (atob base64 = Inr binaryString
    \<longrightarrow> (\<exists>bytes. decode atob base64 = Inr bytes \<and> length bytes = length binaryString \<and>
          (\<forall>i<length binaryString.
             bytes ! i = ucast (binaryString ! i) \<and>
             (binaryString ! i < 256 \<longrightarrow> unat (bytes ! i) = unat (binaryString ! i)))))"
proof (intro conjI impI allI)
  assume h: "0 < numChannels \<and> length data mod (2 * numChannels) = 0 \<and>
    createBuffer numChannels (length data div 2 div numChannels) sampleRate = Inr buffer0 \<and>
    length (channels buffer0) = numChannels \<and>
    (\<forall>cd\<in>set (channels buffer0). length cd = length data div 2 div numChannels)"
  then obtain buffer where b:
    "decodeAudioData data createBuffer sampleRate numChannels = Inr buffer"
    "length (channels buffer) = numChannels"
    "\<forall>c<numChannels. length (channels buffer ! c) = length data div 2 div numChannels \<and>
         (\<forall>i<length data div 2 div numChannels.
            channels buffer ! c ! i =
              Sample (real_of_int (sint (Int16Array data ! (i * numChannels + c))) / 32768))"
    using decodeAudioData_samples [of numChannels data createBuffer sampleRate buffer0]
    by (elim conjE) (simp, elim exE conjE, simp)
  show "\<exists>buffer. decodeAudioData data createBuffer sampleRate numChannels = Inr buffer \<and>
          length (channels buffer) = numChannels \<and>
          (\<forall>c<numChannels. length (channels buffer ! c) = length data div 2 div numChannels \<and>
             (\<forall>i<length data div 2 div numChannels.
                channels buffer ! c ! i =
                  Sample (real_of_int (sint (Int16Array data ! (i * numChannels + c))) / 32768) \<and>
                - 1 \<le> real_of_int (sint (Int16Array data ! (i * numChannels + c))) / 32768 \<and>
                real_of_int (sint (Int16Array data ! (i * numChannels + c))) / 32768 < 1))"
    using b sample_range by (intro exI [of _ buffer]) (simp del: of_int_sint)
next
  fix k assume "k < length data div 2"
  then show "Int16Array data ! k = word_cat (data ! (2 * k + 1)) (data ! (2 * k))"
    by (rule Int16Array_nth)
next
  assume a: "atob base64 = Inr binaryString"
  from decode_bytes [of atob base64 binaryString] a obtain bytes where b: "decode atob base64 = Inr bytes"
    "length bytes = length binaryString"
    "\<forall>i<length binaryString. bytes ! i = ucast (binaryString ! i)"
    by blast
  have "unat (ucast u :: 8 word) = unat u" if "u < 256" for u :: "16 word"
  proof -
    have "unat u < 256" using that by (simp add: word_less_nat_alt)
    then show ?thesis by (simp add: unsigned_ucast_eq take_bit_nat_eq_self_iff)
  qed
  then show "\<exists>bytes. decode atob base64 = Inr bytes \<and> length bytes = length binaryString \<and>
          (\<forall>i<length binaryString.
             bytes ! i = ucast (binaryString ! i) \<and>
             (binaryString ! i < 256 \<longrightarrow> unat (bytes ! i) = unat (binaryString ! i)))"
    using b by (intro exI [of _ bytes]) simp
qed

text \<open>
  Four samples on two channels: -32768, 32767, 1 and -1; and the three characters
  with codes 65, 255 and 0.
\<close>

theorem audio_decoding_witness:
  "(\<exists>buffer. decodeAudioData [0x00, 0x80, 0xFF, 0x7F, 0x01, 0x00, 0xFF, 0xFF]
       (\<lambda>numberOfChannels len rate. Inr \<lparr>buffer_sampleRate = rate,
          channels = replicate numberOfChannels (replicate len (Sample 0))\<rparr>) 24000 2 = Inr buffer \<and>
      length (channels buffer) = 2 \<and>
      channels buffer ! 0 ! 0 = Sample (- 1) \<and>
      channels buffer ! 1 ! 0 = Sample (32767 / 32768) \<and>
      channels buffer ! 0 ! 1 = Sample (1 / 32768) \<and>
      channels buffer ! 1 ! 1 = Sample (- 1 / 32768)) \<and>
   (\<exists>bytes. decode (\<lambda>base64. Inr [0x41, 0xFF, 0x00]) (js ''Qf8A'') = Inr bytes \<and>
      length bytes = 3 \<and> unat (bytes ! 1) = 255)"
proof -
  let ?data = "[0x00, 0x80, 0xFF, 0x7F, 0x01, 0x00, 0xFF, 0xFF] :: 8 word list"
  let ?cb = "\<lambda>numberOfChannels len rate. Inr \<lparr>buffer_sampleRate = rate,
          channels = replicate numberOfChannels (replicate len (Sample 0))\<rparr> :: js_error + AudioBuffer"
  let ?b0 = "\<lparr>buffer_sampleRate = 24000, channels = replicate 2 (replicate 2 (Sample 0))\<rparr>"
  let ?atob = "\<lambda>base64 :: js_string. Inr [0x41, 0xFF, 0x00] :: js_error + js_string"
  note inst = audio_decoding [of 2 ?data ?cb 24000 ?b0 ?atob "js ''Qf8A''" "[0x41, 0xFF, 0x00]"]
  have r2: "replicate 2 x = [x, x]" for x :: 'a
    by (simp add: numeral_2_eq_2)
  have h1: "0 < (2::nat) \<and> length ?data mod (2 * 2) = 0 \<and>
    ?cb 2 (length ?data div 2 div 2) 24000 = Inr ?b0 \<and>
    length (channels ?b0) = 2 \<and>
    (\<forall>cd\<in>set (channels ?b0). length cd = length ?data div 2 div 2)"
    by (simp add: r2)
  from inst [THEN conjunct1, rule_format, OF h1] obtain buffer where b:
    "decodeAudioData ?data ?cb 24000 2 = Inr buffer" "length (channels buffer) = 2"
    "\<forall>c<2. length (channels buffer ! c) = length ?data div 2 div 2 \<and>
       (\<forall>i<length ?data div 2 div 2.
          channels buffer ! c ! i =
            Sample (real_of_int (sint (Int16Array ?data ! (i * 2 + c))) / 32768) \<and>
          - 1 \<le> real_of_int (sint (Int16Array ?data ! (i * 2 + c))) / 32768 \<and>
          real_of_int (sint (Int16Array ?data ! (i * 2 + c))) / 32768 < 1)"
    by blast
  have w: "word_cat (0x80 :: 8 word) (0x00 :: 8 word) = (0x8000 :: 16 word)"
    "word_cat (0x7F :: 8 word) (0xFF :: 8 word) = (0x7FFF :: 16 word)"
    "word_cat (0x00 :: 8 word) (0x01 :: 8 word) = (0x0001 :: 16 word)"
    "word_cat (0xFF :: 8 word) (0xFF :: 8 word) = (0xFFFF :: 16 word)"
    by (simp_all add: word_cat_eq)
  have s: "channels buffer ! 0 ! 0 = Sample (- 1)" "channels buffer ! 1 ! 0 = Sample (32767 / 32768)"
    "channels buffer ! 0 ! 1 = Sample (1 / 32768)" "channels buffer ! 1 ! 1 = Sample (- 1 / 32768)"
    using b(3) [rule_format, of 0, THEN conjunct2, rule_format, of 0]
      b(3) [rule_format, of 1, THEN conjunct2, rule_format, of 0]
      b(3) [rule_format, of 0, THEN conjunct2, rule_format, of 1]
      b(3) [rule_format, of 1, THEN conjunct2, rule_format, of 1]
    by (simp_all add: w)
  have h2: "?atob (js ''Qf8A'') = Inr [0x41, 0xFF, 0x00]"
    by simp
  from inst [THEN conjunct2, THEN conjunct2, rule_format, OF h2] obtain bytes where y:
    "decode ?atob (js ''Qf8A'') = Inr bytes" "length bytes = length [0x41, 0xFF, 0x00 :: 16 word]"
    "\<forall>i<length [0x41, 0xFF, 0x00 :: 16 word]. bytes ! i = ucast ([0x41, 0xFF, 0x00 :: 16 word] ! i) \<and>
       ([0x41, 0xFF, 0x00 :: 16 word] ! i < 256 \<longrightarrow> unat (bytes ! i) = unat ([0x41, 0xFF, 0x00 :: 16 word] ! i))"
    by blast
  have "unat (bytes ! 1) = 255"
    using y(3) [rule_format, of 1] by simp
  then show ?thesis
    using b(1,2) s y(1,2) by simp
qed

section \<open>Properties of the interview screen\<close>


























text \<open>
  The handlers as single runs agree with the steps: each of \<open>startInterview\<close>,
  \<open>handleAnswerSubmit\<close>, \<open>handleEndInterview\<close> and \<open>handleToggleRecording\<close> is the
  run of its steps with nothing in between.
\<close>

lemma speakText_steps:
  assumes "t \<noteq> []" "component r = setStatus Ai_speaking s"
  shows "component (speakText_resume env t False r) = speakText env t s"
    and "component (speakText_resume env t True r) = (speakText env t s)\<lparr>finalAnswer := None\<rparr>"
  using assms
  by (auto simp: speakText_resume_def speakText_def handleAnswerSubmit_finally_def
        setFinalAnswer_def await_def setStatus_def Let_def split: sum.splits option.splits)


lemma handleAnswerSubmit_steps:
  fixes env now
  assumes blank: "trim answer \<noteq> []" and some: "turns (component r) \<noteq> []"
    and idle: "awaiting r = []"
  defines "h \<equiv> conversationHistory (component r) @ [Content Role_user answer]"
  defines "r2 \<equiv> handleAnswerSubmit_resume env now h
                  ((handleAnswerSubmit_begin answer r)\<lparr>awaiting := []\<rparr>)"
  shows "awaiting (handleAnswerSubmit_begin answer r) = [AwaitAnswer h]"
    and "(awaiting r2 = [] \<and> component r2 = handleAnswerSubmit env now answer (component r)) \<or>
         (\<exists>q. awaiting r2 = [AwaitSpeech q True] \<and>
              component (speakText_resume env q True (r2\<lparr>awaiting := []\<rparr>)) =
                handleAnswerSubmit env now answer (component r))"
proof -
  obtain lastTurn earlier where rv: "rev (turns (component r)) = lastTurn # earlier"
    using some by (cases "rev (turns (component r))") auto
  let ?run = "generateContentWithRetry (generateContent env) (TurnRequest h None)
                (apiCalls (component r))"
  let ?s3 = "(setStatus Processing_answer (component r))
               \<lparr>turns := map (\<lambda>t. if turn_id t = turn_id lastTurn
                                   then t\<lparr>turn_answer := Some answer\<rparr> else t)
                              (turns (component r)),
                 apiCalls := calls ?run\<rparr>"
  have first: "(handleAnswerSubmit_begin answer r)\<lparr>awaiting := []\<rparr> =
      r\<lparr>component := ?s3\<lparr>apiCalls := apiCalls (component r)\<rparr>, effectDue := True\<rparr>"
    using blank idle rv
    by (simp add: handleAnswerSubmit_begin_def setTurns_def await_def setStatus_def Let_def)
  show "awaiting (handleAnswerSubmit_begin answer r) = [AwaitAnswer h]"
    using blank idle rv
    by (simp add: handleAnswerSubmit_begin_def h_def setTurns_def await_def setStatus_def Let_def)
  have big: "handleAnswerSubmit env now answer (component r) =
      (case outcome ?run of
         Inl error \<Rightarrow> setStatus Waiting_for_user ?s3
       | Inr response \<Rightarrow>
           (case parse_turn env response of
              Inl error \<Rightarrow> setStatus Waiting_for_user ?s3
            | Inr turnData \<Rightarrow>
                (let s = ?s3\<lparr>turns :=
                            (if nextQuestion turnData \<noteq> [] then
                               butlast (turns ?s3) @
                               [(last (turns ?s3))\<lparr>turn_feedback := td_feedback turnData,
                                                   turn_score := td_score turnData\<rparr>,
                                \<lparr>turn_id = now, turn_question = nextQuestion turnData,
                                 turn_answer = None, turn_feedback = None, turn_score = None\<rparr>]
                             else butlast (turns ?s3) @
                               [(last (turns ?s3))\<lparr>turn_feedback := td_feedback turnData,
                                                   turn_score := td_score turnData\<rparr>]),
                          conversationHistory :=
                            h @ [Content Role_model (JSON_stringify_turn env turnData)]\<rparr>
                 in if nextQuestion turnData \<noteq> []
                    then speakText env (nextQuestion turnData) s
                    else setStatus Finished s)))\<lparr>finalAnswer := None\<rparr>"
    using blank rv
    by (simp add: handleAnswerSubmit_def h_def setStatus_def Let_def split: sum.splits)
  have small: "r2 =
      (case outcome ?run of
         Inl error \<Rightarrow>
           handleAnswerSubmit_finally
             (r\<lparr>effectDue := True, component := setStatus Waiting_for_user ?s3\<rparr>)
       | Inr response \<Rightarrow>
           (case parse_turn env response of
              Inl error \<Rightarrow>
                handleAnswerSubmit_finally
                  (r\<lparr>effectDue := True, component := setStatus Waiting_for_user ?s3\<rparr>)
            | Inr turnData \<Rightarrow>
                (let s = ?s3\<lparr>turns :=
                            (if nextQuestion turnData \<noteq> [] then
                               butlast (turns ?s3) @
                               [(last (turns ?s3))\<lparr>turn_feedback := td_feedback turnData,
                                                   turn_score := td_score turnData\<rparr>,
                                \<lparr>turn_id = now, turn_question = nextQuestion turnData,
                                 turn_answer = None, turn_feedback = None, turn_score = None\<rparr>]
                             else butlast (turns ?s3) @
                               [(last (turns ?s3))\<lparr>turn_feedback := td_feedback turnData,
                                                   turn_score := td_score turnData\<rparr>]),
                          conversationHistory :=
                            h @ [Content Role_model (JSON_stringify_turn env turnData)]\<rparr>
                 in if nextQuestion turnData \<noteq> []
                    then speakText_begin True (nextQuestion turnData)
                           (r\<lparr>effectDue := True, component := s\<rparr>)
                    else handleAnswerSubmit_finally
                           (r\<lparr>effectDue := True, component := setStatus Finished s\<rparr>))))"
    unfolding r2_def first
    by (simp add: handleAnswerSubmit_resume_def setTurns_def setStatus_def Let_def
          split: sum.splits)
  show "(awaiting r2 = [] \<and> component r2 = handleAnswerSubmit env now answer (component r)) \<or>
         (\<exists>q. awaiting r2 = [AwaitSpeech q True] \<and>
              component (speakText_resume env q True (r2\<lparr>awaiting := []\<rparr>)) =
                handleAnswerSubmit env now answer (component r))"
  proof (cases "outcome ?run")
    case (Inl error)
    then show ?thesis
      unfolding big small using idle
      by (simp add: handleAnswerSubmit_finally_def setFinalAnswer_def setStatus_def)
  next
    case (Inr response)
    note resp = Inr
    show ?thesis
    proof (cases "parse_turn env response")
      case (Inl error)
      then show ?thesis
        unfolding big small using idle resp
        by (simp add: handleAnswerSubmit_finally_def setFinalAnswer_def setStatus_def)
    next
      case (Inr turnData)
      show ?thesis
      proof (cases "nextQuestion turnData = []")
        case True
        then show ?thesis
          unfolding big small using idle resp Inr
          by (simp add: handleAnswerSubmit_finally_def setFinalAnswer_def setStatus_def Let_def)
      next
        case False
        let ?s4 = "?s3\<lparr>turns :=
                       butlast (turns ?s3) @
                       [(last (turns ?s3))\<lparr>turn_feedback := td_feedback turnData,
                                           turn_score := td_score turnData\<rparr>,
                        \<lparr>turn_id = now, turn_question = nextQuestion turnData,
                         turn_answer = None, turn_feedback = None, turn_score = None\<rparr>],
                     conversationHistory :=
                       h @ [Content Role_model (JSON_stringify_turn env turnData)]\<rparr>"
        have r2: "r2 = speakText_begin True (nextQuestion turnData)
                         (r\<lparr>effectDue := True, component := ?s4\<rparr>)"
          unfolding small using resp Inr False by (simp add: Let_def)
        have aw: "awaiting r2 = [AwaitSpeech (nextQuestion turnData) True]"
          unfolding r2 using False idle by (simp add: speakText_begin_def await_def)
        have c: "component (r2\<lparr>awaiting := []\<rparr>) = setStatus Ai_speaking ?s4"
          unfolding r2 using False by (simp add: speakText_begin_def await_def)
        have "handleAnswerSubmit env now answer (component r) =
              (speakText env (nextQuestion turnData) ?s4)\<lparr>finalAnswer := None\<rparr>"
          unfolding big using resp Inr False by (simp add: Let_def)
        then show ?thesis
          using aw speakText_steps(2) [OF False c, of env] by auto
      qed
    qed
  qed
qed


lemma startInterview_steps:
  fixes env languageName role level now
  assumes idle: "awaiting r = []"
  defines "r2 \<equiv> startInterview_resume env languageName role level now
                  ((startInterview_begin r)\<lparr>awaiting := []\<rparr>)"
  shows "awaiting (startInterview_begin r) = [AwaitStart]"
    and "(awaiting r2 = [] \<and>
          component r2 = startInterview env languageName role level now (component r)) \<or>
         (\<exists>q. awaiting r2 = [AwaitSpeech q False] \<and>
              component (speakText_resume env q False (r2\<lparr>awaiting := []\<rparr>)) =
                startInterview env languageName role level now (component r))"
proof -
  let ?start = "Content Role_user (js ''Start the interview.'')"
  let ?run = "generateContentWithRetry (generateContent env)
                (TurnRequest [?start] (Some (getSystemPrompt env languageName role level)))
                (apiCalls (component r))"
  let ?s2 = "(setStatus Processing_answer (component r))\<lparr>apiCalls := calls ?run\<rparr>"
  show "awaiting (startInterview_begin r) = [AwaitStart]"
    using idle by (simp add: startInterview_begin_def await_def)
  have big: "startInterview env languageName role level now (component r) =
      (case outcome ?run of
         Inl error \<Rightarrow> setStatus Finished ?s2
       | Inr response \<Rightarrow>
           (case parse_turn env response of
              Inl error \<Rightarrow> setStatus Finished ?s2
            | Inr turnData \<Rightarrow>
                speakText env (nextQuestion turnData)
                  (?s2\<lparr>turns := [\<lparr>turn_id = now, turn_question = nextQuestion turnData,
                                   turn_answer = None, turn_feedback = None,
                                   turn_score = None\<rparr>],
                        conversationHistory :=
                          [?start, Content Role_model (JSON_stringify_turn env turnData)]\<rparr>)))"
    by (simp add: startInterview_def setStatus_def Let_def split: sum.splits)
  have small: "r2 =
      (case outcome ?run of
         Inl error \<Rightarrow> r\<lparr>started := True, component := setStatus Finished ?s2\<rparr>
       | Inr response \<Rightarrow>
           (case parse_turn env response of
              Inl error \<Rightarrow> r\<lparr>started := True, component := setStatus Finished ?s2\<rparr>
            | Inr turnData \<Rightarrow>
                speakText_begin False (nextQuestion turnData)
                  (r\<lparr>started := True, awaiting := [], effectDue := True,
                     component :=
                       ?s2\<lparr>turns := [\<lparr>turn_id = now, turn_question = nextQuestion turnData,
                                        turn_answer = None, turn_feedback = None,
                                        turn_score = None\<rparr>],
                             conversationHistory :=
                               [?start,
                                Content Role_model (JSON_stringify_turn env turnData)]\<rparr>\<rparr>)))"
    unfolding r2_def using idle
    by (simp add: startInterview_resume_def startInterview_begin_def setTurns_def await_def
          setStatus_def Let_def split: sum.splits)
  show "(awaiting r2 = [] \<and>
          component r2 = startInterview env languageName role level now (component r)) \<or>
         (\<exists>q. awaiting r2 = [AwaitSpeech q False] \<and>
              component (speakText_resume env q False (r2\<lparr>awaiting := []\<rparr>)) =
                startInterview env languageName role level now (component r))"
  proof (cases "outcome ?run")
    case (Inl error)
    then show ?thesis
      unfolding big small using idle by simp
  next
    case (Inr response)
    note resp = Inr
    show ?thesis
    proof (cases "parse_turn env response")
      case (Inl error)
      then show ?thesis
        unfolding big small using idle resp by simp
    next
      case (Inr turnData)
      let ?s3 = "?s2\<lparr>turns := [\<lparr>turn_id = now, turn_question = nextQuestion turnData,
                                   turn_answer = None, turn_feedback = None,
                                   turn_score = None\<rparr>],
                        conversationHistory :=
                          [?start, Content Role_model (JSON_stringify_turn env turnData)]\<rparr>"
      have r2: "r2 = speakText_begin False (nextQuestion turnData)
                       (r\<lparr>started := True, awaiting := [], effectDue := True, component := ?s3\<rparr>)"
        unfolding small using resp Inr by simp
      have b: "startInterview env languageName role level now (component r) =
               speakText env (nextQuestion turnData) ?s3"
        unfolding big using resp Inr by simp
      show ?thesis
      proof (cases "nextQuestion turnData = []")
        case True
        then show ?thesis
          unfolding b r2 using idle by (simp add: speakText_begin_def speakText_def)
      next
        case False
        have aw: "awaiting r2 = [AwaitSpeech (nextQuestion turnData) False]"
          unfolding r2 using False idle by (simp add: speakText_begin_def await_def)
        have c: "component (r2\<lparr>awaiting := []\<rparr>) = setStatus Ai_speaking ?s3"
          unfolding r2 using False by (simp add: speakText_begin_def await_def)
        show ?thesis
          using aw b speakText_steps(1) [OF False c, of env] by auto
      qed
    qed
  qed
qed

lemma handleEndInterview_steps:
  "component (handleEndInterview_resume env languageName role level
       (assembleTranscript (turns (component r)))
       ((handleEndInterview_begin r)\<lparr>awaiting := []\<rparr>)) =
   handleEndInterview env languageName role level (component r)"
  by (simp add: handleEndInterview_resume_def handleEndInterview_begin_def
        handleEndInterview_def await_def setStatus_def onInterviewEnd_def Let_def
        split: sum.splits)

lemma handleToggleRecording_steps:
  "component
     (if SpeechRecognitionAPI env \<and> status (component r) = Waiting_for_user
      then handleToggleRecording_resume micGranted (handleToggleRecording_begin env r)
      else handleToggleRecording_begin env r) =
   handleToggleRecording env micGranted (component r)"
  by (simp add: handleToggleRecording_resume_def handleToggleRecording_begin_def
        handleToggleRecording_def await_def setStatus_def Let_def)


lemma mounted_steps:
  "mounted (startInterview_begin r) = mounted r"
  "mounted (startInterview_resume env languageName role level now r) = mounted r"
  "mounted (handleAnswerSubmit_begin answer r) = mounted r"
  "mounted (handleAnswerSubmit_resume env now updatedHistory r) = mounted r"
  "mounted (finalAnswer_effect r) = mounted r"
  "mounted (handleEndInterview_begin r) = mounted r"
  by (simp_all add: startInterview_begin_def startInterview_resume_def
        handleAnswerSubmit_begin_def handleAnswerSubmit_resume_def finalAnswer_effect_def
        handleEndInterview_begin_def speakText_begin_def handleAnswerSubmit_finally_def
        setFinalAnswer_def setTurns_def await_def Let_def
        split: sum.splits list.splits option.splits)

lemma startInterview_is_run:
  assumes "mounted r" "\<not> started r" "awaiting r = []"
  shows "\<exists>es r'. run_occurrences env languageName role level es r = Some r' \<and>
           component r' = startInterview env languageName role level now (component r)"
proof -
  let ?r1 = "startInterview_begin r"
  let ?r2 = "startInterview_resume env languageName role level now (?r1\<lparr>awaiting := []\<rparr>)"
  note steps = startInterview_steps(1) [OF assms(3)]
    startInterview_steps(2) [OF assms(3), where env = env and languageName = languageName
      and role = role and level = level and now = now]
  have o1: "occur env languageName role level Mounted r = Some ?r1"
    using assms by (simp add: occur_def)
  have o2: "occur env languageName role level (Resolved 0 now) ?r1 = Some ?r2"
    using assms(1) steps(1) by (simp add: occur_def resolve_def mounted_steps)
  have m2: "mounted ?r2"
    using assms(1) by (simp add: mounted_steps)
  from steps(2) show ?thesis
  proof
    assume "awaiting ?r2 = [] \<and>
        component ?r2 = startInterview env languageName role level now (component r)"
    moreover have "run_occurrences env languageName role level [Mounted, Resolved 0 now] r =
        Some ?r2"
      using o1 o2 by simp
    ultimately show ?thesis by blast
  next
    assume "\<exists>q. awaiting ?r2 = [AwaitSpeech q False] \<and>
        component (speakText_resume env q False (?r2\<lparr>awaiting := []\<rparr>)) =
          startInterview env languageName role level now (component r)"
    then obtain q where q: "awaiting ?r2 = [AwaitSpeech q False]"
      "component (speakText_resume env q False (?r2\<lparr>awaiting := []\<rparr>)) =
          startInterview env languageName role level now (component r)"
      by blast
    have o3: "occur env languageName role level (Resolved 0 now) ?r2 =
        Some (speakText_resume env q False (?r2\<lparr>awaiting := []\<rparr>))"
      using m2 q(1) by (simp add: occur_def resolve_def)
    have "run_occurrences env languageName role level
            [Mounted, Resolved 0 now, Resolved 0 now] r =
          Some (speakText_resume env q False (?r2\<lparr>awaiting := []\<rparr>))"
      using o1 o2 o3 by simp
    then show ?thesis using q(2) by blast
  qed
qed

lemma handleAnswerSubmit_is_run:
  assumes "mounted r" "effectDue r" "awaiting r = []"
    and "finalAnswer (component r) = Some answer" "answer \<noteq> []"
  shows "\<exists>es r'. run_occurrences env languageName role level es r = Some r' \<and>
           component r' = handleAnswerSubmit env now answer (component r)"
proof -
  let ?r0 = "r\<lparr>effectDue := False\<rparr>"
  let ?r1 = "handleAnswerSubmit_begin answer ?r0"
  have eff: "finalAnswer_effect r = ?r1"
    using assms(4,5) by (simp add: finalAnswer_effect_def)
  have o1: "occur env languageName role level EffectRuns r = Some ?r1"
    using assms(1,2) eff by (simp add: occur_def)
  have one: "run_occurrences env languageName role level [EffectRuns] r = Some ?r1"
    using o1 by simp
  show ?thesis
  proof (cases "trim answer = [] \<or> turns (component r) = []")
    case True
    then have "component ?r1 = handleAnswerSubmit env now answer (component r)"
      by (auto simp: handleAnswerSubmit_begin_def handleAnswerSubmit_def setStatus_def Let_def)
    then show ?thesis using one by blast
  next
    case False
    let ?h = "conversationHistory (component ?r0) @ [Content Role_user answer]"
    let ?r2 = "handleAnswerSubmit_resume env now ?h (?r1\<lparr>awaiting := []\<rparr>)"
    have pre: "trim answer \<noteq> []" "turns (component ?r0) \<noteq> []" "awaiting ?r0 = []"
      using False assms(3) by simp_all
    note steps = handleAnswerSubmit_steps(1) [OF pre]
      handleAnswerSubmit_steps(2) [OF pre, where env = env and now = now]
    have o2: "occur env languageName role level (Resolved 0 now) ?r1 = Some ?r2"
      using assms(1) steps(1) by (simp add: occur_def resolve_def mounted_steps)
    have m2: "mounted ?r2"
      using assms(1) by (simp add: mounted_steps)
    from steps(2) show ?thesis
    proof
      assume a: "awaiting ?r2 = [] \<and>
          component ?r2 = handleAnswerSubmit env now answer (component ?r0)"
      have run: "run_occurrences env languageName role level
                       [EffectRuns, Resolved 0 now] r = Some ?r2"
        using o1 o2 by simp
      have "component ?r2 = handleAnswerSubmit env now answer (component r)"
        using a by simp
      then show ?thesis using run by blast
    next
      assume "\<exists>q. awaiting ?r2 = [AwaitSpeech q True] \<and>
          component (speakText_resume env q True (?r2\<lparr>awaiting := []\<rparr>)) =
            handleAnswerSubmit env now answer (component ?r0)"
      then obtain q where q: "awaiting ?r2 = [AwaitSpeech q True]"
        "component (speakText_resume env q True (?r2\<lparr>awaiting := []\<rparr>)) =
            handleAnswerSubmit env now answer (component ?r0)"
        by blast
      have o3: "occur env languageName role level (Resolved 0 now) ?r2 =
          Some (speakText_resume env q True (?r2\<lparr>awaiting := []\<rparr>))"
        using m2 q(1) by (simp add: occur_def resolve_def)
      have run: "run_occurrences env languageName role level
              [EffectRuns, Resolved 0 now, Resolved 0 now] r =
            Some (speakText_resume env q True (?r2\<lparr>awaiting := []\<rparr>))"
        using o1 o2 o3 by simp
      have "component (speakText_resume env q True (?r2\<lparr>awaiting := []\<rparr>)) =
            handleAnswerSubmit env now answer (component r)"
        using q(2) by simp
      then show ?thesis using run by blast
    qed
  qed
qed

lemma handleEndInterview_is_run:
  assumes "mounted r" "awaiting r = []" "\<not> isGeneratingFeedback (component r)"
    and "status (component r) \<noteq> Starting" "status (component r) \<noteq> Recording"
      "status (component r) \<noteq> Ai_speaking"
  shows "\<exists>r'. run_occurrences env languageName role level [EndClicked, Resolved 0 now] r =
                Some r' \<and>
              component r' = handleEndInterview env languageName role level (component r)"
proof -
  let ?r1 = "handleEndInterview_begin r"
  let ?tr = "assembleTranscript (turns (component r))"
  have aw: "awaiting ?r1 = [AwaitFeedback ?tr]"
    using assms(2) by (simp add: handleEndInterview_begin_def await_def setStatus_def Let_def)
  have o1: "occur env languageName role level EndClicked r = Some ?r1"
    using assms by (simp add: occur_def)
  have o2: "occur env languageName role level (Resolved 0 now) ?r1 =
      Some (handleEndInterview_resume env languageName role level ?tr (?r1\<lparr>awaiting := []\<rparr>))"
    using assms(1) aw by (simp add: occur_def resolve_def mounted_steps)
  show ?thesis
    using o1 o2 handleEndInterview_steps [of env languageName role level r] by simp
qed

lemma foldl_push:
  "foldl (\<lambda>acc x. acc @ g x) acc xs = acc @ concat (map g xs)"
  by (induction xs arbitrary: acc) simp_all

text \<open>
  Claim C6. For every list of turns, the final transcript that \<open>handleEndInterview\<close>
  assembles holds, for each turn in order, one message of the speaker ai with the
  question of the turn, followed by one message of the speaker user with the answer of
  the turn exactly when the turn has an answer, which the source tests by truthiness:
  the answer is present and not the empty string. There are no other messages.
\<close>

theorem assembleTranscript_messages:
  "assembleTranscript ts =
     concat (map (\<lambda>turn.
       \<lparr>msg_id = turn_id turn, speaker = Ai, msg_text = turn_question turn\<rparr> #
       (case turn_answer turn of
          None \<Rightarrow> []
        | Some answer \<Rightarrow>
            if answer \<noteq> []
            then [\<lparr>msg_id = turn_id turn + 1, speaker = User, msg_text = answer\<rparr>]
            else [])) ts)"
proof -
  have "assembleTranscript ts =
     foldl (\<lambda>acc turn. acc @
       (\<lparr>msg_id = turn_id turn, speaker = Ai, msg_text = turn_question turn\<rparr> #
        (case turn_answer turn of
           None \<Rightarrow> []
         | Some answer \<Rightarrow>
             if answer \<noteq> []
             then [\<lparr>msg_id = turn_id turn + 1, speaker = User, msg_text = answer\<rparr>]
             else []))) [] ts"
    unfolding assembleTranscript_def Let_def
    by (rule arg_cong [where f = "\<lambda>f. foldl f [] ts"]) (intro ext, simp split: option.splits)
  then show ?thesis
    by (simp add: foldl_push)
qed

text \<open>
  Three turns: one answered, one whose answer is the empty string, one without an
  answer.
\<close>

theorem assembleTranscript_messages_witness:
  "assembleTranscript
     [\<lparr>turn_id = 10, turn_question = js ''Q1'', turn_answer = Some (js ''A1''),
       turn_feedback = None, turn_score = None\<rparr>,
      \<lparr>turn_id = 20, turn_question = js ''Q2'', turn_answer = Some [],
       turn_feedback = None, turn_score = None\<rparr>,
      \<lparr>turn_id = 30, turn_question = js ''Q3'', turn_answer = None,
       turn_feedback = None, turn_score = None\<rparr>] =
   [\<lparr>msg_id = 10, speaker = Ai, msg_text = js ''Q1''\<rparr>,
    \<lparr>msg_id = 11, speaker = User, msg_text = js ''A1''\<rparr>,
    \<lparr>msg_id = 20, speaker = Ai, msg_text = js ''Q2''\<rparr>,
    \<lparr>msg_id = 30, speaker = Ai, msg_text = js ''Q3''\<rparr>]"
  by (simp add: assembleTranscript_messages js_def)

lemma trim_empty_iff: "trim answer = [] \<longleftrightarrow> (\<forall>c\<in>set answer. isWhiteSpace c)"
proof
  assume "\<forall>c\<in>set answer. isWhiteSpace c"
  then have d: "dropWhile isWhiteSpace answer = []"
    by (simp only: dropWhile_eq_Nil_conv)
  show "trim answer = []"
    unfolding trim_def d by simp
next
  assume "trim answer = []"
  then have "\<forall>c\<in>set (rev (dropWhile isWhiteSpace answer)). isWhiteSpace c"
    by (simp add: trim_def dropWhile_eq_Nil_conv)
  then have all: "\<forall>c\<in>set (dropWhile isWhiteSpace answer). isWhiteSpace c" by simp
  have "dropWhile isWhiteSpace answer = []"
  proof (cases "dropWhile isWhiteSpace answer")
    case Nil
    then show ?thesis .
  next
    case (Cons c cs)
    then have "\<not> isWhiteSpace c" by (metis hd_dropWhile list.sel(1) list.distinct(1))
    moreover have "isWhiteSpace c" using all Cons by simp
    ultimately show ?thesis by contradiction
  qed
  then show "\<forall>c\<in>set answer. isWhiteSpace c" by (simp only: dropWhile_eq_Nil_conv)
qed

text \<open>
  Claim C8. For an answer that is empty or white space only, \<open>handleAnswerSubmit\<close>
  sets the status to waiting_for_user and changes nothing else: the turns and the
  conversation history are as before and the service is not called.
\<close>

theorem handleAnswerSubmit_blank:
  "(\<forall>c\<in>set answer. isWhiteSpace c) \<Longrightarrow>
   handleAnswerSubmit env now answer s = setStatus Waiting_for_user s \<and>
   status (handleAnswerSubmit env now answer s) = Waiting_for_user \<and>
   turns (handleAnswerSubmit env now answer s) = turns s \<and>
   conversationHistory (handleAnswerSubmit env now answer s) = conversationHistory s \<and>
   apiCalls (handleAnswerSubmit env now answer s) = apiCalls s"
  using trim_empty_iff [of answer]
  by (simp add: handleAnswerSubmit_def setStatus_def)

text \<open>
  An answer of a space, a tab and an ideographic space.
\<close>

theorem handleAnswerSubmit_blank_witness:
  "status (handleAnswerSubmit online_env 1 [0x0020, 0x0009, 0x3000]
      (setStatus Recording InterviewScreen_initial)) = Waiting_for_user \<and>
   turns (handleAnswerSubmit online_env 1 [0x0020, 0x0009, 0x3000]
      (setStatus Recording InterviewScreen_initial)) = [] \<and>
   conversationHistory (handleAnswerSubmit online_env 1 [0x0020, 0x0009, 0x3000]
      (setStatus Recording InterviewScreen_initial)) = [] \<and>
   apiCalls (handleAnswerSubmit online_env 1 [0x0020, 0x0009, 0x3000]
      (setStatus Recording InterviewScreen_initial)) = 0"
proof -
  have ws: "\<forall>c\<in>set [0x0020, 0x0009, 0x3000]. isWhiteSpace c"
    by (simp add: isWhiteSpace_def)
  show ?thesis
    using handleAnswerSubmit_blank [OF ws, of online_env 1 "setStatus Recording InterviewScreen_initial"]
    by (simp add: setStatus_def InterviewScreen_initial_def)
qed

text \<open>
  Claim C9. Every run of \<open>handleEndInterview\<close> calls \<open>onInterviewEnd\<close> exactly once,
  with the assembled transcript: with the feedback parsed from the response when the
  request succeeds and its text parses, and with the fallback feedback otherwise. The
  fallback has an overall score of 0, and its strengths, areas for improvement and
  actionable tips are non-empty lists of non-empty messages.
\<close>

theorem handleEndInterview_reports_once:
  "onInterviewEnd_calls (handleEndInterview env languageName role level s) =
     onInterviewEnd_calls s @
     [(assembleTranscript (turns s),
       (case outcome (generateContentWithRetry (generateContent env)
                (FeedbackRequest
                   (getFeedbackPrompt env (assembleTranscript (turns s)) languageName role level))
                (apiCalls s)) of
          Inl error \<Rightarrow> fallbackFeedback
        | Inr response \<Rightarrow>
            (case parse_feedback env response of
               Inl error \<Rightarrow> fallbackFeedback
             | Inr feedbackJson \<Rightarrow> feedbackJson)))] \<and>
   overallScore fallbackFeedback = 0 \<and>
   strengths fallbackFeedback \<noteq> [] \<and> [] \<notin> set (strengths fallbackFeedback) \<and>
   areasForImprovement fallbackFeedback \<noteq> [] \<and> [] \<notin> set (areasForImprovement fallbackFeedback) \<and>
   actionableTips fallbackFeedback \<noteq> [] \<and> [] \<notin> set (actionableTips fallbackFeedback)"
  by (simp add: handleEndInterview_def setStatus_def Let_def onInterviewEnd_def
        fallbackFeedback_def js_def split: sum.splits)

text \<open>
  A run where the service answers, and a run without a network.
\<close>

theorem handleEndInterview_reports_once_witness:
  "onInterviewEnd_calls (handleEndInterview online_env (js ''English'') QA_Tester Senior
      (setStatus Waiting_for_user InterviewScreen_initial)) = [([], good_feedback)] \<and>
   onInterviewEnd_calls (handleEndInterview offline_env (js ''English'') QA_Tester Senior
      (setStatus Waiting_for_user InterviewScreen_initial)) = [([], fallbackFeedback)]"
proof -
  have a: "assembleTranscript (turns (setStatus Waiting_for_user InterviewScreen_initial)) = []"
    by (simp add: assembleTranscript_def setStatus_def InterviewScreen_initial_def)
  have c: "onInterviewEnd_calls (setStatus Waiting_for_user InterviewScreen_initial) = []"
    by (simp add: setStatus_def InterviewScreen_initial_def)
  have on: "outcome (generateContentWithRetry (generateContent online_env) request n) =
      Inr \<lparr>response_text = Some (js ''{}''), inlineData = None\<rparr>" for request n
    by (simp add: generateContentWithRetry_def retry_loop.simps online_env_def offline_env_def
          MAX_RETRIES_def)
  have pf: "parse_feedback online_env \<lparr>response_text = Some (js ''{}''), inlineData = None\<rparr> =
      Inr good_feedback"
    by (simp add: parse_feedback_def online_env_def offline_env_def)
  have off: "\<exists>error. outcome (generateContentWithRetry (generateContent offline_env) request n) =
      Inl error" for request n
    by (simp add: generateContentWithRetry_def retry_loop.simps offline_env_def
          MAX_RETRIES_def isRateLimit_def errorString_def js_def)
  show ?thesis
    using handleEndInterview_reports_once [of online_env "js ''English''" QA_Tester Senior
        "setStatus Waiting_for_user InterviewScreen_initial"]
      handleEndInterview_reports_once [of offline_env "js ''English''" QA_Tester Senior
        "setStatus Waiting_for_user InterviewScreen_initial"]
      off [of "FeedbackRequest (getFeedbackPrompt offline_env [] (js ''English'') QA_Tester Senior)"
           "apiCalls (setStatus Waiting_for_user InterviewScreen_initial)"]
    by (auto simp: a c on pf)
qed

section \<open>Properties of saving a report\<close>

lemma save_report_Inr:
  assumes "save_report fits now savedAt fb transcript store = Inr store'"
  shows "\<exists>olds. existingReports store = Inr (JArray olds) \<and>
           store' = store(reports_key \<mapsto>
                      JsonText (JArray (new_report now savedAt fb transcript # olds)))"
  using assms
  by (auto simp: save_report_def Let_def JSON_stringify_def
        split: sum.splits json.splits if_splits)

lemma existingReports_written:
  "existingReports (store(reports_key \<mapsto> JsonText v)) = Inr v"
  by (simp add: existingReports_def JSON_parse_def)

text \<open>
  Claim C4. Whatever list of reports is stored under the key \<open>ai-interview-reports\<close>
  (none when the item is missing or empty), a \<open>handleSave\<close> that succeeds, that is
  one that does not end in the alert of its \<open>catch\<close>, marks the report as saved and
  leaves under the key the earlier list with exactly one report added: every earlier
  report is still there, unchanged and in the same relative order. The new report holds
  the feedback, the transcript and the time stamp, and \<open>unshift\<close> puts it at the front.
  No other key of the storage changes.
\<close>

theorem handleSave_extends_list:
  "alerts (handleSave fits now savedAt fb transcript s) = alerts s \<Longrightarrow>
   isSaved (handleSave fits now savedAt fb transcript s) \<and>
   (\<exists>olds news.
      existingReports (localStorage s) = Inr (JArray olds) \<and>
      existingReports (localStorage (handleSave fits now savedAt fb transcript s)) =
        Inr (JArray news) \<and>
      news = new_report now savedAt fb transcript # olds \<and>
      subseq olds news \<and>
      length news = length olds + 1 \<and>
      (\<forall>key. key \<noteq> reports_key \<longrightarrow>
         localStorage (handleSave fits now savedAt fb transcript s) key = localStorage s key)) \<and>
   new_report now savedAt fb transcript =
     JObject [(js ''id'', JString (js ''report-'' @ decimal now)),
              (js ''feedback'', feedback_json fb),
              (js ''transcript'', JArray (map message_json transcript)),
              (js ''savedAt'', JString savedAt)]"
proof -
  assume quiet: "alerts (handleSave fits now savedAt fb transcript s) = alerts s"
  obtain store' where ok: "save_report fits now savedAt fb transcript (localStorage s) = Inr store'"
    using quiet by (cases "save_report fits now savedAt fb transcript (localStorage s)")
      (simp_all add: handleSave_def)
  then have after: "handleSave fits now savedAt fb transcript s =
      s\<lparr>localStorage := store', isSaved := True\<rparr>"
    by (simp add: handleSave_def)
  from save_report_Inr [OF ok] obtain olds where olds:
    "existingReports (localStorage s) = Inr (JArray olds)"
    "store' = (localStorage s)(reports_key \<mapsto>
                 JsonText (JArray (new_report now savedAt fb transcript # olds)))"
    by blast
  let ?news = "new_report now savedAt fb transcript # olds"
  have "existingReports store' = Inr (JArray ?news)"
    unfolding olds(2) by (rule existingReports_written)
  moreover have "subseq olds ?news"
    by (intro list_emb_Cons subseq_order.order_refl)
  moreover have "\<forall>key. key \<noteq> reports_key \<longrightarrow> store' key = localStorage s key"
    by (simp add: olds(2))
  ultimately show ?thesis
    using olds(1) by (simp add: after new_report_def)
qed

text \<open>Saving when one earlier report is stored.\<close>

theorem handleSave_extends_list_witness:
  "isSaved (handleSave (\<lambda>written. True) 17 (js ''2026-11-03T10:00:00.000Z'') good_feedback []
      \<lparr>isTranscriptVisible = False, isSaved = False,
       localStorage = [reports_key \<mapsto> JsonText (JArray [JString (js ''earlier report'')])],
       alerts = 0\<rparr>) \<and>
   existingReports (localStorage (handleSave (\<lambda>written. True) 17 (js ''2026-11-03T10:00:00.000Z'')
      good_feedback []
      \<lparr>isTranscriptVisible = False, isSaved = False,
       localStorage = [reports_key \<mapsto> JsonText (JArray [JString (js ''earlier report'')])],
       alerts = 0\<rparr>)) =
     Inr (JArray [new_report 17 (js ''2026-11-03T10:00:00.000Z'') good_feedback [],
                  JString (js ''earlier report'')])"
proof -
  let ?s = "\<lparr>isTranscriptVisible = False, isSaved = False,
       localStorage = [reports_key \<mapsto> JsonText (JArray [JString (js ''earlier report'')])],
       alerts = 0\<rparr>"
  have old: "existingReports (localStorage ?s) = Inr (JArray [JString (js ''earlier report'')])"
    by (simp add: existingReports_def JSON_parse_def)
  have quiet: "alerts (handleSave (\<lambda>written. True) 17 (js ''2026-11-03T10:00:00.000Z'')
      good_feedback [] ?s) = alerts ?s"
    by (simp add: handleSave_def save_report_def existingReports_def JSON_parse_def
          JSON_stringify_def Let_def)
  show ?thesis
    using handleSave_extends_list [OF quiet] old by auto
qed

end
